theory Spec2Isabelle
  imports Complex_Main "HOL-Library.Sublist"
begin

section \<open>Strings of UTF-16 code units\<close>

text \<open>
  An ECMAScript string is a finite sequence of 16-bit code units. A code unit is
  modelled by its numeric value and a string by the list of its code units, so
  that \<open>length\<close> is the \<open>.length\<close> of the program and \<open>String.prototype.includes\<close> is
  containment of one list as a contiguous block of another.
\<close>

type_synonym jschar = nat
type_synonym jsstring = "jschar list"

definition includesStr :: "jsstring \<Rightarrow> jsstring \<Rightarrow> bool" where
  "includesStr haystack needle = sublist needle haystack"

text \<open>
  The class \<open>\s\<close> of a regular expression and the characters removed by
  \<open>String.prototype.trim\<close> are the same set: WhiteSpace and LineTerminator of
  ECMA-262 (TAB, LF, VT, FF, CR, SP, NBSP, U+1680, U+2000..U+200A, U+2028, U+2029,
  U+202F, U+205F, U+3000, U+FEFF).
\<close>

definition isWhiteSpace :: "jschar \<Rightarrow> bool" where
  "isWhiteSpace c \<longleftrightarrow>
     (0x09 \<le> c \<and> c \<le> 0x0D) \<or> c = 0x20 \<or> c = 0xA0 \<or> c = 0x1680 \<or>
     (0x2000 \<le> c \<and> c \<le> 0x200A) \<or> c = 0x2028 \<or> c = 0x2029 \<or>
     c = 0x202F \<or> c = 0x205F \<or> c = 0x3000 \<or> c = 0xFEFF"

definition trim :: "jsstring \<Rightarrow> jsstring" where
  "trim s = rev (dropWhile isWhiteSpace (rev (dropWhile isWhiteSpace s)))"

section \<open>Text normalizer\<close>

text \<open>
  \<open>value.replace\<close> with the class \<open>[\s]+\<close> (extended by U+00A0), globally, by a space: every maximal run of white space
  (U+00A0 already belongs to \<open>\s\<close>) is replaced by one U+0020.
\<close>

function replaceWhitespaceRuns :: "jsstring \<Rightarrow> jsstring" where
  "replaceWhitespaceRuns [] = []"
| "replaceWhitespaceRuns (c # cs) =
     (if isWhiteSpace c then 0x20 # replaceWhitespaceRuns (dropWhile isWhiteSpace cs)
      else c # replaceWhitespaceRuns cs)"
  by pat_completeness auto
termination
  by (relation "measure length") (simp_all add: le_imp_less_Suc length_dropWhile_le)

text \<open>
  \<open>.replace(/[...]/g, '-')\<close> with the six characters of the source's class:
  U+2010 HYPHEN, U+2011, U+2012, U+2013 EN DASH, U+2014 EM DASH, U+2015.
\<close>

definition isDashVariant :: "jschar \<Rightarrow> bool" where
  "isDashVariant c \<longleftrightarrow> 0x2010 \<le> c \<and> c \<le> 0x2015"

definition replaceDashes :: "jsstring \<Rightarrow> jsstring" where
  "replaceDashes s = map (\<lambda>c. if isDashVariant c then 0x2D else c) s"

text \<open>
  \<open>String.prototype.toLowerCase\<close> is the locale-independent lower-casing of the
  Unicode standard (ECMA-262, 22.1.3.28), including the conditional mapping
  \<open>Final_Sigma\<close> of SpecialCasing.txt. The case tables are modelled on the
  repertoire Basic Latin, Latin-1 Supplement and the unaccented Greek alphabet,
  with the combining marks U+0300 to U+036F (U+0345 left out) as case-ignorable
  characters; every other code unit is taken as caseless.

  \<open>lowerUnit\<close> is the simple mapping of one code unit. U+03A3 (capital sigma)
  becomes U+03C2 (final small sigma) when it is preceded by a cased letter,
  with case-ignorable characters allowed in between, and not followed by one;
  otherwise it becomes U+03C3. \<open>lowerFrom\<close> walks the string from left to right
  and carries whether such a cased letter precedes.
\<close>

definition lowerUnit :: "jschar \<Rightarrow> jschar" where
  "lowerUnit c =
     (if 0x41 \<le> c \<and> c \<le> 0x5A then c + 0x20
      else if 0xC0 \<le> c \<and> c \<le> 0xDE \<and> c \<noteq> 0xD7 then c + 0x20
      else if 0x391 \<le> c \<and> c \<le> 0x3A9 \<and> c \<noteq> 0x3A2 then c + 0x20
      else c)"

definition isCased :: "jschar \<Rightarrow> bool" where
  "isCased c \<longleftrightarrow>
     (0x41 \<le> c \<and> c \<le> 0x5A) \<or> (0x61 \<le> c \<and> c \<le> 0x7A) \<or>
     c = 0xAA \<or> c = 0xB5 \<or> c = 0xBA \<or>
     (0xC0 \<le> c \<and> c \<le> 0xFF \<and> c \<noteq> 0xD7 \<and> c \<noteq> 0xF7) \<or>
     (0x391 \<le> c \<and> c \<le> 0x3A9 \<and> c \<noteq> 0x3A2) \<or> (0x3B1 \<le> c \<and> c \<le> 0x3C9)"

definition isCaseIgnorable :: "jschar \<Rightarrow> bool" where
  "isCaseIgnorable c \<longleftrightarrow>
     c = 0x27 \<or> c = 0x2E \<or> c = 0x3A \<or> c = 0x5E \<or> c = 0x60 \<or>
     c = 0xA8 \<or> c = 0xAD \<or> c = 0xAF \<or> c = 0xB4 \<or> c = 0xB7 \<or> c = 0xB8 \<or>
     (0x300 \<le> c \<and> c \<le> 0x36F \<and> c \<noteq> 0x345)"

fun followedByCased :: "jsstring \<Rightarrow> bool" where
  "followedByCased [] = False"
| "followedByCased (c # cs) = (isCased c \<or> (isCaseIgnorable c \<and> followedByCased cs))"

fun lowerFrom :: "bool \<Rightarrow> jsstring \<Rightarrow> jsstring" where
  "lowerFrom afterCased [] = []"
| "lowerFrom afterCased (c # cs) =
     (if c = 0x3A3 then (if afterCased \<and> \<not> followedByCased cs then 0x3C2 else 0x3C3)
      else lowerUnit c)
     # lowerFrom (isCased c \<or> (isCaseIgnorable c \<and> afterCased)) cs"

definition toLowerCase :: "jsstring \<Rightarrow> jsstring" where
  "toLowerCase s = lowerFrom False s"

definition normalizeForComparison :: "jsstring \<Rightarrow> jsstring" where
  "normalizeForComparison v = toLowerCase (trim (replaceDashes (replaceWhitespaceRuns v)))"

section \<open>Regular expressions built from a snippet\<close>

text \<open>
  \<open>escapeForRegex\<close> puts a backslash before each character of the class
  \<open>[-\/\\^$*+?.()|[\]{}]\<close>: the sixteen characters
  \<open>- / \ ^ $ * + ? . ( ) | [ ] { }\<close>.
\<close>

definition isEscaped :: "jschar \<Rightarrow> bool" where
  "isEscaped c \<longleftrightarrow> c \<in> {0x2D, 0x2F, 0x5C, 0x5E, 0x24, 0x2A, 0x2B, 0x3F, 0x2E, 0x28, 0x29,
                          0x7C, 0x5B, 0x5D, 0x7B, 0x7D}"

definition escapeForRegex :: "jsstring \<Rightarrow> jsstring" where
  "escapeForRegex v = concat (map (\<lambda>c. if isEscaped c then [0x5C, c] else [c]) v)"

text \<open>
  \<open>.replace(/\s+/g, '\\s+')\<close>: every maximal run of white space becomes the three
  characters backslash, \<open>s\<close>, \<open>+\<close>.
\<close>

function whitespaceToPattern :: "jsstring \<Rightarrow> jsstring" where
  "whitespaceToPattern [] = []"
| "whitespaceToPattern (c # cs) =
     (if isWhiteSpace c then [0x5C, 0x73, 0x2B] @ whitespaceToPattern (dropWhile isWhiteSpace cs)
      else c # whitespaceToPattern cs)"
  by pat_completeness auto
termination
  by (relation "measure length") (simp_all add: le_imp_less_Suc length_dropWhile_le)

text \<open>
  \<open>new RegExp(pattern, 'i')\<close>. The pattern is read from left to right:
  a backslash followed by \<open>s\<close> and then \<open>+\<close> is one or more white-space
  characters, a backslash followed by one of the sixteen escaped characters is that
  character, and any other character outside the sixteen stands for itself.
  These are the only forms the two replacements above can produce, and on them
  the constructor does not raise. \<open>None\<close> stands for the \<open>SyntaxError\<close> of
  the constructor and for every pattern outside this fragment.
\<close>

datatype regexItem = Literal jschar | WhiteSpacePlus

fun compilePattern :: "jsstring \<Rightarrow> regexItem list option" where
  "compilePattern [] = Some []"
| "compilePattern (c # rest) =
     (if c = 0x5C then
        (case rest of
           [] \<Rightarrow> None
         | e # rest' \<Rightarrow>
             (if e = 0x73 then
                (case rest' of
                   [] \<Rightarrow> None
                 | p # rest'' \<Rightarrow>
                     (if p = 0x2B then map_option ((#) WhiteSpacePlus) (compilePattern rest'')
                      else None))
              else if isEscaped e then map_option ((#) (Literal e)) (compilePattern rest')
              else None))
      else if isEscaped c then None
      else map_option ((#) (Literal c)) (compilePattern rest))"

text \<open>
  With the flag \<open>i\<close> and without the flag \<open>u\<close>, two code units match when
  their images under \<open>Canonicalize\<close> (ECMA-262, 22.2.5.6) are equal: the code
  unit is upper-cased as a one-character string; a result of more than one code
  unit, or an ASCII result for a non-ASCII code unit, leaves it unchanged.
  \<open>toUpperCaseUnit\<close> is \<open>String.prototype.toUpperCase\<close> on a one-character
  string, on the same repertoire as \<open>toLowerCase\<close>.
\<close>

definition toUpperCaseUnit :: "jschar \<Rightarrow> jsstring" where
  "toUpperCaseUnit c =
     (if 0x61 \<le> c \<and> c \<le> 0x7A then [c - 0x20]
      else if c = 0xB5 then [0x39C]
      else if c = 0xDF then [0x53, 0x53]
      else if 0xE0 \<le> c \<and> c \<le> 0xFE \<and> c \<noteq> 0xF7 then [c - 0x20]
      else if c = 0xFF then [0x178]
      else if c = 0x3C2 then [0x3A3]
      else if 0x3B1 \<le> c \<and> c \<le> 0x3C9 then [c - 0x20]
      else [c])"

definition canonicalize :: "jschar \<Rightarrow> jschar" where
  "canonicalize ch =
     (case toUpperCaseUnit ch of
        [cu] \<Rightarrow> if ch \<ge> 128 \<and> cu < 128 then ch else cu
      | _ \<Rightarrow> ch)"

text \<open>
  Matching at a fixed position, by backtracking. \<open>\s+\<close> is greedy: it first takes
  the whole run of white space and gives code units back one at a time, down to
  one. The result is the matched text, \<open>match[0]\<close>.
\<close>

fun matchHere :: "regexItem list \<Rightarrow> jsstring \<Rightarrow> jsstring option"
  and matchWhiteSpace :: "regexItem list \<Rightarrow> jsstring \<Rightarrow> nat \<Rightarrow> jsstring option" where
  "matchHere [] s = Some []"
| "matchHere (Literal c # r) s =
     (case s of
        [] \<Rightarrow> None
      | d # ds \<Rightarrow>
          if canonicalize d = canonicalize c then map_option ((#) d) (matchHere r ds) else None)"
| "matchHere (WhiteSpacePlus # r) s = matchWhiteSpace r s (length (takeWhile isWhiteSpace s))"
| "matchWhiteSpace r s 0 = None"
| "matchWhiteSpace r s (Suc k) =
     (case matchHere r (drop (Suc k) s) of
        Some m \<Rightarrow> Some (take (Suc k) s @ m)
      | None \<Rightarrow> matchWhiteSpace r s k)"

text \<open>
  \<open>content.match(regex)\<close> for a regular expression without the flag \<open>g\<close>: the
  match at the leftmost position where there is one, \<open>None\<close> for \<open>null\<close>.
\<close>

fun regexMatch :: "regexItem list \<Rightarrow> jsstring \<Rightarrow> jsstring option" where
  "regexMatch r [] = matchHere r []"
| "regexMatch r (c # cs) =
     (case matchHere r (c # cs) of Some m \<Rightarrow> Some m | None \<Rightarrow> regexMatch r cs)"

section \<open>Values and records\<close>

text \<open>
  A number is an IEEE double. The program only compares numbers and tests them
  for finiteness, so a finite double is modelled by the rational it denotes.
\<close>

datatype jsnum = Finite rat | PosInfinity | NegInfinity | NaN

fun isFiniteNum :: "jsnum \<Rightarrow> bool" where
  "isFiniteNum (Finite q) = True"
| "isFiniteNum _ = False"

text \<open>Values that \<open>JSON.parse\<close> and \<open>request.json()\<close> produce; \<open>undefined\<close> is \<open>None\<close>
  of \<open>json option\<close>. Property names are HOL strings.\<close>

datatype json =
    JNull
  | JBool bool
  | JNum jsnum
  | JStr jsstring
  | JArr "json list"
  | JObj "(string \<times> json) list"

text \<open>\<open>value.key\<close> for a value that is not \<open>null\<close>: an own property of an
  object, \<open>undefined\<close> on everything else (none of the names the program reads is
  a property of a string, a number, a boolean or an array).\<close>

fun getProp :: "json \<Rightarrow> string \<Rightarrow> json option" where
  "getProp (JObj kvs) k = map_of kvs k"
| "getProp _ k = None"

fun truthy :: "json option \<Rightarrow> bool" where
  "truthy None = False"
| "truthy (Some JNull) = False"
| "truthy (Some (JBool b)) = b"
| "truthy (Some (JNum (Finite q))) = (q \<noteq> 0)"
| "truthy (Some (JNum NaN)) = False"
| "truthy (Some (JNum _)) = True"
| "truthy (Some (JStr s)) = (s \<noteq> [])"
| "truthy (Some (JArr _)) = True"
| "truthy (Some (JObj _)) = True"

text \<open>\<open>interface ChunkRecord { id: number; content: string | null;
  metadata: Record<string, unknown> | null }\<close>; a \<open>null\<close> metadata is \<open>JNull\<close>.\<close>

record chunkRecord =
  chunk_id :: int
  content :: "jsstring option"
  metadata :: json

text \<open>The highlight \<open>{ text, chunkId }\<close>.\<close>

record highlightSpan =
  text' :: jsstring
  chunkId :: int

text \<open>An element of the serialized list: \<open>{ id, text, page, source }\<close>.\<close>

record serializedChunk =
  sc_id :: int
  sc_text :: jsstring
  sc_page :: "jsnum option"
  sc_source :: "jsstring option"

text \<open>The body \<open>{ highlight, chunks }\<close> of a response with status 200.\<close>

record responseBody =
  body_highlight :: "highlightSpan option"
  body_chunks :: "serializedChunk list"

datatype response =
    Ok200 responseBody
  | Err400 string
  | Err500 string

text \<open>An exception of the program: the \<open>TypeError\<close> of a property read on
  \<open>null\<close> or \<open>undefined\<close> or of a call of something that is not a function, and
  the \<open>SyntaxError\<close> of \<open>JSON.parse\<close> and of \<open>new RegExp\<close>, and the failure of
  the call of the language model.\<close>

datatype jsError = TypeError | SyntaxError | CallFailed

text \<open>
  Built-in functions whose result no property below depends on:
  \<open>Number.prototype.toString\<close>, \<open>Number(string)\<close> and \<open>JSON.parse\<close>
  (\<open>None\<close> when it raises).
\<close>

record builtins =
  numberToString :: "jsnum \<Rightarrow> jsstring"
  stringToNumber :: "jsstring \<Rightarrow> jsnum"
  jsonParse :: "jsstring \<Rightarrow> json option"

text \<open>\<open>process.env\<close>: each variable is a string or \<open>undefined\<close>.\<close>

record environment =
  NEXT_PUBLIC_SUPABASE_URL :: "jsstring option"
  NEXT_PUBLIC_SUPABASE_ANON_KEY :: "jsstring option"
  OPENAI_API_KEY :: "jsstring option"

fun isSet :: "jsstring option \<Rightarrow> bool" where
  "isSet None = False"
| "isSet (Some s) = (s \<noteq> [])"

section \<open>The chunk store\<close>

text \<open>
  A query on \<open>document_chunks\<close> selecting \<open>id, content, metadata\<close> is the list of
  its filters: \<open>metadata->>source\<close> equal to \<open>q_source\<close>, \<open>metadata->>page\<close> equal
  to \<open>q_page\<close>, \<open>metadata->loc->>pageNumber\<close> equal to \<open>q_locPageNumber\<close>,
  \<open>metadata->>orgUrl\<close> equal to \<open>q_orgUrl\<close>, and the row limit; \<open>None\<close> is a
  filter that was not set. The store answers a query with \<open>{ data, error }\<close>.
  The handlers return the queries they issued, in order, beside the response.
\<close>

record chunkQuery =
  q_source :: json
  q_page :: "json option"
  q_locPageNumber :: "jsstring option"
  q_orgUrl :: "json option"
  q_limit :: "nat option"

record queryResult =
  qr_data :: "chunkRecord list option"
  qr_error :: "jsstring option"

type_synonym chunkStore = "chunkQuery \<Rightarrow> queryResult"

datatype located = FetchFailed | Located "chunkRecord list"

section \<open>The language model\<close>

text \<open>
  \<open>buildLlmPrompt\<close> is a function of the answer snippet and the chunks, and the
  reply of the model is not determined by the program: the call
  \<open>llm.invoke\<close> is any function of those two, which either raises (network,
  authentication, construction of the client) or returns a message whose
  \<open>content\<close> is a string, an array of parts, or something else.
\<close>

datatype contentPart = PartString jsstring | PartWithText "jsstring option" | PartOther

datatype messageContent =
    ContentFalsy
  | ContentString jsstring
  | ContentArray "contentPart list"
  | ContentWithText "jsstring option"
  | ContentOther

datatype llmOutcome = LlmThrows | LlmReturns messageContent

type_synonym languageModel = "json \<Rightarrow> chunkRecord list \<Rightarrow> llmOutcome"

section \<open>Direct matcher\<close>

text \<open>\<open>chunk.content ?? ''\<close>\<close>

definition contentOrEmpty :: "chunkRecord \<Rightarrow> jsstring" where
  "contentOrEmpty chunk = (case content chunk of None \<Rightarrow> [] | Some s \<Rightarrow> s)"

text \<open>\<open>escapeForRegex(cleanedSnippet).replace(/\s+/g, '\\s+')\<close>\<close>

definition snippetPattern :: "jsstring \<Rightarrow> jsstring" where
  "snippetPattern cleanedSnippet = whitespaceToPattern (escapeForRegex cleanedSnippet)"

text \<open>
  The repository holds two revisions of the highlight route. The names ending in
  \<open>_direct_first\<close> model \<^verbatim>\<open>src/app/api/highlight/route.ts\<close>, which tries the direct
  matcher before the language model; the names ending in \<open>_llm_first\<close> model the
  revision \<^verbatim>\<open>unnamed/part_006\<close>, which has \<open>normalizeForComparison\<close>, a second
  page lookup and logging, and tries the language model first.

  \<open>findDirectMatch\<close> of \<^verbatim>\<open>route.ts\<close>: the loop over the chunks, then the function.
\<close>

fun findDirectMatchLoop_direct_first ::
  "jsstring \<Rightarrow> chunkRecord list \<Rightarrow> jsError + highlightSpan option" where
  "findDirectMatchLoop_direct_first cleanedSnippet [] = Inr None"
| "findDirectMatchLoop_direct_first cleanedSnippet (chunk # rest) =
     (if contentOrEmpty chunk = [] then findDirectMatchLoop_direct_first cleanedSnippet rest
      else if includesStr (contentOrEmpty chunk) cleanedSnippet
        then Inr (Some \<lparr>text' = cleanedSnippet, chunkId = chunk_id chunk\<rparr>)
      else
        (case compilePattern (snippetPattern cleanedSnippet) of
           None \<Rightarrow> Inl SyntaxError
         | Some regex \<Rightarrow>
             (case regexMatch regex (contentOrEmpty chunk) of
                None \<Rightarrow> findDirectMatchLoop_direct_first cleanedSnippet rest
              | Some m \<Rightarrow>
                  if m \<noteq> [] then Inr (Some \<lparr>text' = m, chunkId = chunk_id chunk\<rparr>)
                  else findDirectMatchLoop_direct_first cleanedSnippet rest)))"

definition findDirectMatch_direct_first ::
  "chunkRecord list \<Rightarrow> jsstring \<Rightarrow> jsError + highlightSpan option" where
  "findDirectMatch_direct_first chunks snippet =
     (if trim snippet = [] then Inr None
      else findDirectMatchLoop_direct_first (trim snippet) chunks)"

text \<open>\<open>findDirectMatch\<close> of \<^verbatim>\<open>part_006\<close>.\<close>

fun findDirectMatchLoop_llm_first ::
  "jsstring \<Rightarrow> jsstring \<Rightarrow> chunkRecord list \<Rightarrow> jsError + highlightSpan option" where
  "findDirectMatchLoop_llm_first cleanedSnippet normalizedSnippet [] = Inr None"
| "findDirectMatchLoop_llm_first cleanedSnippet normalizedSnippet (chunk # rest) =
     (if contentOrEmpty chunk = []
        then findDirectMatchLoop_llm_first cleanedSnippet normalizedSnippet rest
      else if includesStr (normalizeForComparison (contentOrEmpty chunk)) normalizedSnippet
        then
          (case compilePattern (snippetPattern cleanedSnippet) of
             None \<Rightarrow> Inl SyntaxError
           | Some regex \<Rightarrow>
               Inr (Some \<lparr>text' = (case regexMatch regex (contentOrEmpty chunk) of
                                        Some m \<Rightarrow> m
                                      | None \<Rightarrow> cleanedSnippet),
                          chunkId = chunk_id chunk\<rparr>))
      else findDirectMatchLoop_llm_first cleanedSnippet normalizedSnippet rest)"

definition findDirectMatch_llm_first ::
  "chunkRecord list \<Rightarrow> jsstring \<Rightarrow> jsError + highlightSpan option" where
  "findDirectMatch_llm_first chunks snippet =
     (if trim snippet = [] then Inr None
      else if normalizeForComparison (trim snippet) = [] then Inr None
      else findDirectMatchLoop_llm_first (trim snippet) (normalizeForComparison (trim snippet))
             chunks)"

text \<open>The handlers pass the \<open>answerSnippet\<close> of the request body, which can be any
  value; \<open>snippet.trim()\<close> raises \<open>TypeError\<close> on everything but a string.\<close>

fun applyToSnippet ::
  "(chunkRecord list \<Rightarrow> jsstring \<Rightarrow> jsError + highlightSpan option) \<Rightarrow>
   chunkRecord list \<Rightarrow> json \<Rightarrow> jsError + highlightSpan option" where
  "applyToSnippet f chunks (JStr s) = f chunks s"
| "applyToSnippet f chunks _ = Inl TypeError"

section \<open>Serialization of the candidate chunks\<close>

fun toNumberOrNull :: "builtins \<Rightarrow> json option \<Rightarrow> jsnum option" where
  "toNumberOrNull B (Some (JNum n)) = (if isFiniteNum n then Some n else None)"
| "toNumberOrNull B (Some (JStr s)) =
     (if isFiniteNum (stringToNumber B s) then Some (stringToNumber B s) else None)"
| "toNumberOrNull B _ = None"

fun toStringOrNull :: "json option \<Rightarrow> jsstring option" where
  "toStringOrNull (Some (JStr s)) = Some s"
| "toStringOrNull _ = None"

text \<open>\<open>metadata.loc?.pageNumber\<close> for a metadata that is not \<open>null\<close>.\<close>

definition locPageNumber :: "json \<Rightarrow> json option" where
  "locPageNumber md =
     (case getProp md ''loc'' of
        None \<Rightarrow> None
      | Some JNull \<Rightarrow> None
      | Some loc \<Rightarrow> getProp loc ''pageNumber'')"

definition serializeChunk :: "builtins \<Rightarrow> chunkRecord \<Rightarrow> serializedChunk" where
  "serializeChunk B chunk =
     (let md = (if metadata chunk = JNull then JObj [] else metadata chunk) in
      \<lparr>sc_id = chunk_id chunk,
       sc_text = contentOrEmpty chunk,
       sc_page = (case toNumberOrNull B (getProp md ''page'') of
                    Some n \<Rightarrow> Some n
                  | None \<Rightarrow> toNumberOrNull B (locPageNumber md)),
       sc_source = toStringOrNull (getProp md ''source'')\<rparr>)"

definition serializeChunks :: "builtins \<Rightarrow> chunkRecord list \<Rightarrow> serializedChunk list" where
  "serializeChunks B cs = map (serializeChunk B) cs"

section \<open>Extraction by the language model\<close>

fun partText :: "contentPart \<Rightarrow> jsstring" where
  "partText (PartString s) = s"
| "partText (PartWithText None) = []"
| "partText (PartWithText (Some s)) = s"
| "partText PartOther = []"

fun parseLlmResponse :: "messageContent \<Rightarrow> jsstring option" where
  "parseLlmResponse ContentFalsy = None"
| "parseLlmResponse (ContentString s) = (if s = [] then None else Some s)"
| "parseLlmResponse (ContentArray parts) = Some (concat (map partText parts))"
| "parseLlmResponse (ContentWithText None) = Some []"
| "parseLlmResponse (ContentWithText (Some s)) = Some s"
| "parseLlmResponse ContentOther = None"

text \<open>\<open>indexOf\<close> and \<open>lastIndexOf\<close> of one character; \<open>None\<close> is \<open>-1\<close>.\<close>

definition indexOf :: "jschar \<Rightarrow> jsstring \<Rightarrow> nat option" where
  "indexOf c s = (if c \<in> set s then Some (length (takeWhile (\<lambda>x. x \<noteq> c) s)) else None)"

definition lastIndexOf :: "jschar \<Rightarrow> jsstring \<Rightarrow> nat option" where
  "lastIndexOf c s =
     (if c \<in> set s then Some (length s - 1 - length (takeWhile (\<lambda>x. x \<noteq> c) (rev s)))
      else None)"

definition slice :: "jsstring \<Rightarrow> nat \<Rightarrow> nat \<Rightarrow> jsstring" where
  "slice s a b = take (b - a) (drop a s)"

text \<open>From the content of the reply to the parsed object: \<open>Inr None\<close> when one of
  the guards fails, \<open>Inl\<close> when \<open>JSON.parse\<close> raises.\<close>

definition extractJson :: "builtins \<Rightarrow> messageContent \<Rightarrow> jsError + json option" where
  "extractJson B raw =
     (case parseLlmResponse raw of
        None \<Rightarrow> Inr None
      | Some rawContent \<Rightarrow>
          if rawContent = [] then Inr None
          else
            (case indexOf 0x7B (trim rawContent) of
               None \<Rightarrow> Inr None
             | Some jsonStart \<Rightarrow>
                 (case lastIndexOf 0x7D (trim rawContent) of
                    None \<Rightarrow> Inr None
                  | Some jsonEnd \<Rightarrow>
                      if jsonEnd \<ge> jsonStart then
                        (case jsonParse B (slice (trim rawContent) jsonStart (jsonEnd + 1)) of
                           None \<Rightarrow> Inl SyntaxError
                         | Some parsed \<Rightarrow> Inr (Some parsed))
                      else Inr None)))"

fun nonNegative :: "jsnum \<Rightarrow> bool" where
  "nonNegative (Finite q) = (q \<ge> 0)"
| "nonNegative PosInfinity = True"
| "nonNegative _ = False"

fun lessThanLength :: "jsnum \<Rightarrow> nat \<Rightarrow> bool" where
  "lessThanLength (Finite q) n = (q < of_nat n)"
| "lessThanLength NegInfinity n = True"
| "lessThanLength _ n = False"

text \<open>\<open>chunks[i]\<close> for a number \<open>i\<close>: the element when \<open>i\<close> is an integer within
  the array, \<open>undefined\<close> otherwise.\<close>

fun elementAt :: "'a list \<Rightarrow> jsnum \<Rightarrow> 'a option" where
  "elementAt xs (Finite q) =
     (if q = of_int \<lfloor>q\<rfloor> \<and> 0 \<le> q \<and> q < of_nat (length xs) then Some (xs ! nat \<lfloor>q\<rfloor>) else None)"
| "elementAt xs _ = None"

text \<open>
  The validation of the parsed reply. The accepting test is the parameter \<open>gate\<close>
  (content of the chosen chunk, then \<open>exactText\<close>): \<open>content.includes(exactText)\<close>
  in \<^verbatim>\<open>route.ts\<close>, the same test on the normalized strings in \<^verbatim>\<open>part_006\<close>.
  Reading a property of a \<open>null\<close> reply, or \<open>content\<close> of an \<open>undefined\<close> chunk,
  raises \<open>TypeError\<close>.
\<close>

definition validateSpan ::
  "(jsstring \<Rightarrow> jsstring \<Rightarrow> bool) \<Rightarrow> chunkRecord list \<Rightarrow> json \<Rightarrow> jsError + highlightSpan option" where
  "validateSpan gate chunks parsed =
     (if parsed = JNull then Inl TypeError
      else
        (case getProp parsed ''chunkIndex'' of
           Some (JNum i) \<Rightarrow>
             if nonNegative i \<and> lessThanLength i (length chunks) then
               (case getProp parsed ''exactText'' of
                  Some (JStr exactText) \<Rightarrow>
                    (case elementAt chunks i of
                       None \<Rightarrow> Inl TypeError
                     | Some targetChunk \<Rightarrow>
                         if exactText \<noteq> [] \<and> gate (contentOrEmpty targetChunk) exactText
                         then Inr (Some \<lparr>text' = exactText, chunkId = chunk_id targetChunk\<rparr>)
                         else Inr None)
                | _ \<Rightarrow> Inr None)
             else Inr None
         | _ \<Rightarrow> Inr None))"

definition gate_direct_first :: "jsstring \<Rightarrow> jsstring \<Rightarrow> bool" where
  "gate_direct_first c exactText = includesStr c exactText"

definition gate_llm_first :: "jsstring \<Rightarrow> jsstring \<Rightarrow> bool" where
  "gate_llm_first c exactText =
     includesStr (normalizeForComparison c) (normalizeForComparison exactText)"

text \<open>The body of the \<open>try\<close> block, and the block with its \<open>catch\<close>, which logs
  the error and leaves \<open>highlightResult\<close> at \<open>null\<close>.\<close>

definition llmAttempt ::
  "(jsstring \<Rightarrow> jsstring \<Rightarrow> bool) \<Rightarrow> builtins \<Rightarrow> chunkRecord list \<Rightarrow> llmOutcome \<Rightarrow>
   jsError + highlightSpan option" where
  "llmAttempt gate B chunks outcome =
     (case outcome of
        LlmThrows \<Rightarrow> Inl CallFailed
      | LlmReturns raw \<Rightarrow>
          (case extractJson B raw of
             Inl e \<Rightarrow> Inl e
           | Inr None \<Rightarrow> Inr None
           | Inr (Some parsed) \<Rightarrow> validateSpan gate chunks parsed))"

definition llmStage ::
  "(jsstring \<Rightarrow> jsstring \<Rightarrow> bool) \<Rightarrow> builtins \<Rightarrow> chunkRecord list \<Rightarrow> llmOutcome \<Rightarrow>
   highlightSpan option" where
  "llmStage gate B chunks outcome =
     (case llmAttempt gate B chunks outcome of Inl e \<Rightarrow> None | Inr r \<Rightarrow> r)"

section \<open>Chunk lookup\<close>

text \<open>\<open>typeof page === 'number' ? page.toString() : page\<close>\<close>

definition pageValueOf :: "builtins \<Rightarrow> json \<Rightarrow> json" where
  "pageValueOf B page = (case page of JNum n \<Rightarrow> JStr (numberToString B n) | _ \<Rightarrow> page)"

text \<open>\<open>if (orgUrl) query = query.eq('metadata->>orgUrl', orgUrl)\<close>\<close>

definition orgFilter :: "json option \<Rightarrow> json option" where
  "orgFilter orgUrl = (if truthy orgUrl then orgUrl else None)"

definition exactPageQuery :: "json \<Rightarrow> json \<Rightarrow> json option \<Rightarrow> chunkQuery" where
  "exactPageQuery filename pageValue orgUrl =
     \<lparr>q_source = filename, q_page = Some pageValue, q_locPageNumber = None,
      q_orgUrl = orgFilter orgUrl, q_limit = None\<rparr>"

definition locPageQuery :: "json \<Rightarrow> jsstring \<Rightarrow> json option \<Rightarrow> chunkQuery" where
  "locPageQuery filename pageNumber orgUrl =
     \<lparr>q_source = filename, q_page = None, q_locPageNumber = Some pageNumber,
      q_orgUrl = orgFilter orgUrl, q_limit = None\<rparr>"

definition fallbackQuery :: "json \<Rightarrow> json option \<Rightarrow> chunkQuery" where
  "fallbackQuery filename orgUrl =
     \<lparr>q_source = filename, q_page = None, q_locPageNumber = None,
      q_orgUrl = orgFilter orgUrl, q_limit = Some 8\<rparr>"

text \<open>\<open>data ?? []\<close>\<close>

definition rowsOf :: "queryResult \<Rightarrow> chunkRecord list" where
  "rowsOf r = (case qr_data r of None \<Rightarrow> [] | Some cs \<Rightarrow> cs)"

text \<open>The lookup of \<^verbatim>\<open>route.ts\<close>: the exact page, then the capped fetch without
  the page.\<close>

definition locateChunks_direct_first ::
  "builtins \<Rightarrow> chunkStore \<Rightarrow> json \<Rightarrow> json \<Rightarrow> json option \<Rightarrow> chunkQuery list \<times> located" where
  "locateChunks_direct_first B store filename page orgUrl =
     (let q1 = exactPageQuery filename (pageValueOf B page) orgUrl;
          q3 = fallbackQuery filename orgUrl
      in if qr_error (store q1) \<noteq> None then ([q1], FetchFailed)
         else if rowsOf (store q1) \<noteq> [] then ([q1], Located (rowsOf (store q1)))
         else ([q1, q3], Located (rowsOf (store q3))))"

text \<open>\<open>page.match(/\d+/)\<close>: the leftmost maximal run of the digits 0 to 9.\<close>

definition isDigit :: "jschar \<Rightarrow> bool" where
  "isDigit c \<longleftrightarrow> 0x30 \<le> c \<and> c \<le> 0x39"

definition firstDigits :: "jsstring \<Rightarrow> jsstring option" where
  "firstDigits s =
     (if dropWhile (\<lambda>c. \<not> isDigit c) s = [] then None
      else Some (takeWhile isDigit (dropWhile (\<lambda>c. \<not> isDigit c) s)))"

fun pageNumberFallback :: "builtins \<Rightarrow> json \<Rightarrow> jsstring option" where
  "pageNumberFallback B (JNum n) = Some (numberToString B n)"
| "pageNumberFallback B (JStr s) = firstDigits s"
| "pageNumberFallback B _ = None"

text \<open>The lookup of \<^verbatim>\<open>part_006\<close>: the exact page, then \<open>metadata.loc.pageNumber\<close>
  when \<open>pageNumberFallback\<close> is a non-empty string, then the capped fetch.\<close>

definition locateChunks_llm_first ::
  "builtins \<Rightarrow> chunkStore \<Rightarrow> json \<Rightarrow> json \<Rightarrow> json option \<Rightarrow> chunkQuery list \<times> located" where
  "locateChunks_llm_first B store filename page orgUrl =
     (let q1 = exactPageQuery filename (pageValueOf B page) orgUrl;
          q3 = fallbackQuery filename orgUrl
      in if qr_error (store q1) \<noteq> None then ([q1], FetchFailed)
         else if rowsOf (store q1) \<noteq> [] then ([q1], Located (rowsOf (store q1)))
         else
           (case pageNumberFallback B page of
              None \<Rightarrow> ([q1, q3], Located (rowsOf (store q3)))
            | Some pn \<Rightarrow>
                if pn = [] then ([q1, q3], Located (rowsOf (store q3)))
                else if rowsOf (store (locPageQuery filename pn orgUrl)) \<noteq> []
                  then ([q1, locPageQuery filename pn orgUrl],
                        Located (rowsOf (store (locPageQuery filename pn orgUrl))))
                else ([q1, locPageQuery filename pn orgUrl, q3], Located (rowsOf (store q3)))))"

section \<open>Logging of \<^verbatim>\<open>part_006\<close>\<close>

text \<open>
  \<open>answerSnippet?.slice(0, 200) ?? ''\<close>, evaluated before the request is
  validated: nothing is called on \<open>null\<close>, strings and arrays have \<open>slice\<close>, and on
  every other value \<open>slice\<close> is not a function.
\<close>

fun requestLog :: "json \<Rightarrow> jsError + unit" where
  "requestLog JNull = Inr ()"
| "requestLog (JStr s) = Inr ()"
| "requestLog (JArr xs) = Inr ()"
| "requestLog _ = Inl TypeError"

text \<open>
  The page shown for a candidate chunk:
  \<open>chunk.metadata?.page ?? chunk.metadata.loc?.pageNumber ?? null\<close>. The second
  operand reads \<open>loc\<close> without \<open>?.\<close> and is evaluated when the first is \<open>null\<close> or
  \<open>undefined\<close>.
\<close>

definition logPage :: "chunkRecord \<Rightarrow> jsError + json" where
  "logPage chunk =
     (case (if metadata chunk = JNull then None else getProp (metadata chunk) ''page'') of
        Some (JNull) \<Rightarrow>
          (if metadata chunk = JNull then Inl TypeError
           else Inr (case locPageNumber (metadata chunk) of None \<Rightarrow> JNull | Some v \<Rightarrow> v))
      | Some v \<Rightarrow> Inr v
      | None \<Rightarrow>
          (if metadata chunk = JNull then Inl TypeError
           else Inr (case locPageNumber (metadata chunk) of None \<Rightarrow> JNull | Some v \<Rightarrow> v)))"

definition candidateLog :: "chunkRecord list \<Rightarrow> jsError + unit" where
  "candidateLog cs = (if list_ex (\<lambda>c. isl (logPage c)) cs then Inl TypeError else Inr ())"

section \<open>The handlers\<close>

text \<open>\<open>const { filename, page, answerSnippet = '', orgUrl } = body ?? {}\<close>\<close>

definition fieldsOf :: "json \<Rightarrow> json" where
  "fieldsOf body = (if body = JNull then JObj [] else body)"

definition answerSnippetOf :: "json \<Rightarrow> json" where
  "answerSnippetOf body =
     (case getProp (fieldsOf body) ''answerSnippet'' of None \<Rightarrow> JStr [] | Some v \<Rightarrow> v)"

text \<open>
  The highlight stages of \<^verbatim>\<open>route.ts\<close> on a non-empty candidate list: the direct
  matcher when the snippet is truthy, then the language model when the snippet
  is truthy and a key is configured. An exception of the direct matcher reaches
  the outer \<open>catch\<close>.
\<close>

definition resolve_direct_first ::
  "builtins \<Rightarrow> environment \<Rightarrow> languageModel \<Rightarrow> json \<Rightarrow> chunkRecord list \<Rightarrow> response" where
  "resolve_direct_first B env llm answerSnippet cs =
     (case (if truthy (Some answerSnippet)
            then applyToSnippet findDirectMatch_direct_first cs answerSnippet
            else Inr None) of
        Inl e \<Rightarrow> Err500 ''Internal server error''
      | Inr (Some directMatch) \<Rightarrow>
          Ok200 \<lparr>body_highlight = Some directMatch, body_chunks = serializeChunks B cs\<rparr>
      | Inr None \<Rightarrow>
          Ok200 \<lparr>body_highlight =
                   (if truthy (Some answerSnippet) \<and> isSet (OPENAI_API_KEY env)
                    then llmStage gate_direct_first B cs (llm answerSnippet cs)
                    else None),
                 body_chunks = serializeChunks B cs\<rparr>)"

text \<open>
  The highlight stages of \<^verbatim>\<open>part_006\<close>: the log of the candidates, the language
  model when a key is configured, then the direct matcher when the model gave
  nothing.
\<close>

definition resolve_llm_first ::
  "builtins \<Rightarrow> environment \<Rightarrow> languageModel \<Rightarrow> json \<Rightarrow> chunkRecord list \<Rightarrow> response" where
  "resolve_llm_first B env llm answerSnippet cs =
     (case candidateLog cs of
        Inl e \<Rightarrow> Err500 ''Internal server error''
      | Inr u \<Rightarrow>
          (case (if isSet (OPENAI_API_KEY env)
                 then llmStage gate_llm_first B cs (llm answerSnippet cs)
                 else None) of
             Some h \<Rightarrow> Ok200 \<lparr>body_highlight = Some h, body_chunks = serializeChunks B cs\<rparr>
           | None \<Rightarrow>
               (case applyToSnippet findDirectMatch_llm_first cs answerSnippet of
                  Inl e \<Rightarrow> Err500 ''Internal server error''
                | Inr directMatch \<Rightarrow>
                    Ok200 \<lparr>body_highlight = directMatch,
                           body_chunks = serializeChunks B cs\<rparr>)))"

text \<open>
  After the lookup: status 500 when the first query failed, an empty answer when
  there is no candidate, the highlight stages otherwise.
\<close>

definition respond ::
  "(chunkRecord list \<Rightarrow> response) \<Rightarrow> chunkQuery list \<times> located \<Rightarrow> chunkQuery list \<times> response" where
  "respond resolve r =
     (case r of
        (queries, FetchFailed) \<Rightarrow> (queries, Err500 ''Failed to fetch chunks'')
      | (queries, Located cs) \<Rightarrow>
          if cs = [] then (queries, Ok200 \<lparr>body_highlight = None, body_chunks = []\<rparr>)
          else (queries, resolve cs))"

text \<open>
  \<open>POST\<close> of \<^verbatim>\<open>route.ts\<close>. The argument \<open>body\<close> is the result of
  \<open>request.json()\<close>, \<open>None\<close> when it raises. The result is the list of the
  queries sent to the store and the response.
\<close>

definition POST_direct_first ::
  "builtins \<Rightarrow> environment \<Rightarrow> chunkStore \<Rightarrow> languageModel \<Rightarrow> json option \<Rightarrow>
   chunkQuery list \<times> response" where
  "POST_direct_first B env store llm body =
     (case body of
        None \<Rightarrow> ([], Err500 ''Internal server error'')
      | Some b \<Rightarrow>
          if \<not> truthy (getProp (fieldsOf b) ''filename'') \<or> getProp (fieldsOf b) ''page'' = None
            then ([], Err400 ''filename and page are required'')
          else if \<not> isSet (NEXT_PUBLIC_SUPABASE_URL env) \<or>
                  \<not> isSet (NEXT_PUBLIC_SUPABASE_ANON_KEY env)
            then ([], Err500 ''Missing Supabase configuration'')
          else
            (case (getProp (fieldsOf b) ''filename'', getProp (fieldsOf b) ''page'') of
               (Some filename, Some page) \<Rightarrow>
                 respond (resolve_direct_first B env llm (answerSnippetOf b))
                   (locateChunks_direct_first B store filename page
                      (getProp (fieldsOf b) ''orgUrl''))
             | _ \<Rightarrow> ([], Err400 ''filename and page are required'')))"

text \<open>\<open>POST\<close> of \<^verbatim>\<open>part_006\<close>, which logs the request before it validates it.\<close>

definition POST_llm_first ::
  "builtins \<Rightarrow> environment \<Rightarrow> chunkStore \<Rightarrow> languageModel \<Rightarrow> json option \<Rightarrow>
   chunkQuery list \<times> response" where
  "POST_llm_first B env store llm body =
     (case body of
        None \<Rightarrow> ([], Err500 ''Internal server error'')
      | Some b \<Rightarrow>
          (case requestLog (answerSnippetOf b) of
             Inl e \<Rightarrow> ([], Err500 ''Internal server error'')
           | Inr u \<Rightarrow>
               if \<not> truthy (getProp (fieldsOf b) ''filename'') \<or>
                  getProp (fieldsOf b) ''page'' = None
                 then ([], Err400 ''filename and page are required'')
               else if \<not> isSet (NEXT_PUBLIC_SUPABASE_URL env) \<or>
                       \<not> isSet (NEXT_PUBLIC_SUPABASE_ANON_KEY env)
                 then ([], Err500 ''Missing Supabase configuration'')
               else
                 (case (getProp (fieldsOf b) ''filename'', getProp (fieldsOf b) ''page'') of
                    (Some filename, Some page) \<Rightarrow>
                      respond (resolve_llm_first B env llm (answerSnippetOf b))
                        (locateChunks_llm_first B store filename page
                           (getProp (fieldsOf b) ''orgUrl''))
                  | _ \<Rightarrow> ([], Err400 ''filename and page are required''))))"

section \<open>Collaborators for worked examples\<close>

text \<open>
  The examples below run the handlers against fixed collaborators: built-ins
  whose \<open>JSON.parse\<close> knows one reply, a model that always gives the same reply
  or always fails, and a store that answers by the kind of query.
\<close>

definition parsesTo :: "jsstring \<Rightarrow> json \<Rightarrow> builtins" where
  "parsesTo reply v =
     \<lparr>numberToString = (\<lambda>n. [0x31]),
      stringToNumber = (\<lambda>s. NaN),
      jsonParse = (\<lambda>s. if s = reply then Some v else None)\<rparr>"

definition replying :: "jsstring \<Rightarrow> languageModel" where
  "replying reply = (\<lambda>answerSnippet cs. LlmReturns (ContentString reply))"

definition failing :: languageModel where
  "failing = (\<lambda>answerSnippet cs. LlmThrows)"

text \<open>A store with no row for the exact page, the rows \<open>byLoc\<close> for the lookup by
  \<open>metadata.loc.pageNumber\<close> and the rows \<open>capped\<close> for the fetch without page.\<close>

definition storeWithoutPage :: "chunkRecord list \<Rightarrow> chunkRecord list \<Rightarrow> chunkStore" where
  "storeWithoutPage byLoc capped =
     (\<lambda>q. \<lparr>qr_data = (if q_page q \<noteq> None then Some []
                       else if q_locPageNumber q \<noteq> None then Some byLoc
                       else Some capped),
            qr_error = None\<rparr>)"

text \<open>A store that has the rows \<open>exact\<close> for the exact page.\<close>

definition storeWithPage :: "chunkRecord list \<Rightarrow> chunkStore" where
  "storeWithPage exact = (\<lambda>q. \<lparr>qr_data = Some exact, qr_error = None\<rparr>)"

text \<open>The reply \<^verbatim>\<open>{"chunkIndex":0,"exactText":"Hi"}\<close>, the same reply with the two Greek
  capitals alpha and sigma as text, and the objects they denote.\<close>

definition replyHi :: jsstring where
  "replyHi = [0x7B, 0x22, 0x63, 0x68, 0x75, 0x6E, 0x6B, 0x49, 0x6E, 0x64, 0x65, 0x78, 0x22, 0x3A,
              0x30, 0x2C, 0x22, 0x65, 0x78, 0x61, 0x63, 0x74, 0x54, 0x65, 0x78, 0x74, 0x22, 0x3A,
              0x22, 0x48, 0x69, 0x22, 0x7D]"

definition replyAlphaSigma :: jsstring where
  "replyAlphaSigma =
     [0x7B, 0x22, 0x63, 0x68, 0x75, 0x6E, 0x6B, 0x49, 0x6E, 0x64, 0x65, 0x78, 0x22, 0x3A,
      0x30, 0x2C, 0x22, 0x65, 0x78, 0x61, 0x63, 0x74, 0x54, 0x65, 0x78, 0x74, 0x22, 0x3A,
      0x22, 0x391, 0x3A3, 0x22, 0x7D]"

definition span :: "jsstring \<Rightarrow> json" where
  "span exactText = JObj [(''chunkIndex'', JNum (Finite 0)), (''exactText'', JStr exactText)]"

text \<open>A configured environment, a body \<^verbatim>\<open>{"filename":"a","page":5,"answerSnippet":"hi"}\<close>
  and a chunk of the file \<open>a\<close> with the content \<open>Hi Yo\<close>.\<close>

definition sampleEnv :: environment where
  "sampleEnv = \<lparr>NEXT_PUBLIC_SUPABASE_URL = Some [0x75], NEXT_PUBLIC_SUPABASE_ANON_KEY = Some [0x6B],
                OPENAI_API_KEY = Some [0x6F]\<rparr>"

definition sampleBody :: json where
  "sampleBody = JObj [(''filename'', JStr [0x61]), (''page'', JNum (Finite 5)),
                      (''answerSnippet'', JStr [0x68, 0x69])]"

definition sampleChunk :: chunkRecord where
  "sampleChunk = \<lparr>chunk_id = 7, content = Some [0x48, 0x69, 0x20, 0x59, 0x6F],
                  metadata = JObj [(''source'', JStr [0x61])]\<rparr>"

text \<open>The same body with the snippet \<open>zz\<close>, which occurs in no chunk.\<close>

definition sampleBodyParaphrase :: json where
  "sampleBodyParaphrase = JObj [(''filename'', JStr [0x61]), (''page'', JNum (Finite 5)),
                                (''answerSnippet'', JStr [0x7A, 0x7A])]"

section \<open>Auxiliary notions for the proofs\<close>





text \<open>A request body that passes the validation, with its file name and page, in
  an environment where the store is configured.\<close>

definition accepted :: "environment \<Rightarrow> json \<Rightarrow> json \<Rightarrow> json \<Rightarrow> bool" where
  "accepted env b filename page \<longleftrightarrow>
     getProp (fieldsOf b) ''filename'' = Some filename \<and> truthy (Some filename) \<and>
     getProp (fieldsOf b) ''page'' = Some page \<and>
     isSet (NEXT_PUBLIC_SUPABASE_URL env) \<and> isSet (NEXT_PUBLIC_SUPABASE_ANON_KEY env)"

text \<open>The tier of a query: 1 for the exact page, 2 for \<open>metadata.loc.pageNumber\<close>,
  3 for the fetch without page.\<close>

definition tierOf :: "chunkQuery \<Rightarrow> nat" where
  "tierOf q = (if q_page q \<noteq> None then 1 else if q_locPageNumber q \<noteq> None then 2 else 3)"

section \<open>Properties of the normalizer\<close>

subsection \<open>Lower-casing\<close>









subsection \<open>White-space runs\<close>








subsection \<open>Trimming\<close>

lemma dw_all: "(\<And>c. c \<in> set a \<Longrightarrow> P c) \<Longrightarrow> dropWhile P a = []"
  by simp







subsection \<open>Normal forms\<close>










subsection \<open>Substrings\<close>










section \<open>Properties of the matcher\<close>

subsection \<open>Regular expressions\<close>

lemma matchHere_prefix: "matchHere r s = Some m \<Longrightarrow> prefix m s"
  and matchWhiteSpace_prefix: "matchWhiteSpace r' s' k = Some m' \<Longrightarrow> prefix m' s'"
proof (induction r s and r' s' k arbitrary: m and m' rule: matchHere_matchWhiteSpace.induct)
  case (1 s)
  then show ?case by simp
next
  case (2 c r s)
  then show ?case by (auto split: list.splits if_splits)
next
  case (3 r s)
  then show ?case by simp
next
  case (4 r s)
  then show ?case by simp
next
  case (5 r s k)
  show ?case
  proof (cases "matchHere r (drop (Suc k) s)")
    case None
    with 5 show ?thesis by simp
  next
    case (Some m1)
    with 5(3) have m: "m' = take (Suc k) s @ m1" by simp
    from Some 5(1) have "prefix m1 (drop (Suc k) s)" by simp
    then obtain z where "drop (Suc k) s = m1 @ z" by (auto simp: prefix_def)
    then have "s = take (Suc k) s @ m1 @ z" by (metis append_take_drop_id)
    then show ?thesis using m by (metis append.assoc prefixI)
  qed
qed

lemma regexMatch_sublist: "regexMatch r s = Some m \<Longrightarrow> sublist m s"
proof (induction s)
  case Nil
  then show ?case using matchHere_prefix[of r "[]" m] by auto
next
  case (Cons c cs)
  show ?case
  proof (cases "matchHere r (c # cs)")
    case None
    with Cons have "sublist m cs" by simp
    then show ?thesis by (simp add: sublist_Cons_right)
  next
    case (Some m')
    with Cons(2) have "m' = m" by simp
    with Some matchHere_prefix[of r "c # cs" m] show ?thesis by auto
  qed
qed

lemma escaped_not_ws: "isEscaped c \<Longrightarrow> \<not> isWhiteSpace c"
  by (auto simp: isEscaped_def isWhiteSpace_def)

lemma backslash_escaped: "isEscaped 0x5C" and backslash_not_ws: "\<not> isWhiteSpace 0x5C"
  and s_not_escaped: "\<not> isEscaped 0x73"
  by (simp_all add: isEscaped_def isWhiteSpace_def)

lemma escape_dropWhile:
  "dropWhile isWhiteSpace (escapeForRegex cs) = escapeForRegex (dropWhile isWhiteSpace cs)"
  by (induction cs) (auto simp: escapeForRegex_def escaped_not_ws backslash_not_ws)

lemma escape_Cons:
  "escapeForRegex (c # cs) = (if isEscaped c then [0x5C, c] else [c]) @ escapeForRegex cs"
  by (simp add: escapeForRegex_def)

lemma compile_snippet: "\<exists>r. compilePattern (snippetPattern s) = Some r"
proof (induction s rule: replaceWhitespaceRuns.induct)
  case 1
  then show ?case by (simp add: snippetPattern_def escapeForRegex_def)
next
  case (2 c cs)
  show ?case
  proof (cases "isWhiteSpace c")
    case True
    then have ne: "\<not> isEscaped c" using escaped_not_ws by blast
    from 2(1)[OF True] obtain r where
      r: "compilePattern (whitespaceToPattern (escapeForRegex (dropWhile isWhiteSpace cs))) = Some r"
      by (auto simp: snippetPattern_def)
    have "snippetPattern (c # cs) =
            [0x5C, 0x73, 0x2B] @ whitespaceToPattern (escapeForRegex (dropWhile isWhiteSpace cs))"
      using True ne by (simp add: snippetPattern_def escape_Cons escape_dropWhile)
    then show ?thesis using r by simp
  next
    case False
    from 2(2)[OF False] obtain r where
      r: "compilePattern (whitespaceToPattern (escapeForRegex cs)) = Some r"
      by (auto simp: snippetPattern_def)
    show ?thesis
    proof (cases "isEscaped c")
      case True
      then have "c \<noteq> 0x73" using s_not_escaped by auto
      moreover have "snippetPattern (c # cs) = 0x5C # c # whitespaceToPattern (escapeForRegex cs)"
        using True False by (simp add: snippetPattern_def escape_Cons backslash_not_ws)
      ultimately show ?thesis using r True by simp
    next
      case ne: False
      then have "c \<noteq> 0x5C" using backslash_escaped by auto
      moreover have "snippetPattern (c # cs) = c # whitespaceToPattern (escapeForRegex cs)"
        using ne False by (simp add: snippetPattern_def escape_Cons)
      ultimately show ?thesis using r ne by simp
    qed
  qed
qed

subsection \<open>The loops of the direct matcher\<close>



lemma loop_direct_first_sound:
  "findDirectMatchLoop_direct_first cl cs = Inr (Some h) \<Longrightarrow>
   \<exists>c\<in>set cs. chunk_id c = chunkId h \<and> includesStr (contentOrEmpty c) (text' h)"
proof (induction cs)
  case Nil
  then show ?case by simp
next
  case (Cons c cs)
  obtain r where r: "compilePattern (snippetPattern cl) = Some r"
    using compile_snippet by blast
  show ?case
  proof (cases "findDirectMatchLoop_direct_first cl cs = Inr (Some h)")
    case True
    with Cons(1) show ?thesis by auto
  next
    case False
    with Cons(2) r have "(includesStr (contentOrEmpty c) cl \<and> h = \<lparr>text' = cl, chunkId = chunk_id c\<rparr>)
        \<or> (\<exists>m. regexMatch r (contentOrEmpty c) = Some m \<and> h = \<lparr>text' = m, chunkId = chunk_id c\<rparr>)"
      by (auto split: if_splits option.splits)
    then show ?thesis using regexMatch_sublist[of r "contentOrEmpty c"]
      by (auto simp: includesStr_def)
  qed
qed


lemma loop_llm_first_total: "\<exists>r. findDirectMatchLoop_llm_first cl ns cs = Inr r"
proof (induction cs)
  case Nil
  then show ?case by simp
next
  case (Cons c cs)
  obtain r where "compilePattern (snippetPattern cl) = Some r"
    using compile_snippet by blast
  with Cons show ?case by auto
qed

lemma loop_direct_first_total: "\<exists>r. findDirectMatchLoop_direct_first cl cs = Inr r"
proof (induction cs)
  case Nil
  then show ?case by simp
next
  case (Cons c cs)
  obtain r where "compilePattern (snippetPattern cl) = Some r"
    using compile_snippet by blast
  with Cons show ?case by (auto split: option.splits)
qed

lemma findDirectMatch_llm_first_total: "\<exists>r. findDirectMatch_llm_first cs snippet = Inr r"
  using loop_llm_first_total by (simp add: findDirectMatch_llm_first_def)

lemma findDirectMatch_direct_first_total: "\<exists>r. findDirectMatch_direct_first cs snippet = Inr r"
  using loop_direct_first_total by (simp add: findDirectMatch_direct_first_def)

section \<open>Evaluation of concrete inputs\<close>

lemmas eval_strings =
  includesStr_def sublist_code trim_def isWhiteSpace_def normalizeForComparison_def
  toLowerCase_def replaceDashes_def isDashVariant_def lowerUnit_def isCased_def
  isCaseIgnorable_def

lemmas eval_regex =
  snippetPattern_def escapeForRegex_def isEscaped_def canonicalize_def toUpperCaseUnit_def


lemmas eval_llm =
  llmStage_def llmAttempt_def extractJson_def validateSpan_def gate_direct_first_def
  gate_llm_first_def indexOf_def lastIndexOf_def slice_def parsesTo_def replying_def
  failing_def span_def replyHi_def replyAlphaSigma_def contentOrEmpty_def


lemmas eval_handlers =
  POST_direct_first_def POST_llm_first_def respond_def resolve_direct_first_def
  resolve_llm_first_def locateChunks_direct_first_def locateChunks_llm_first_def
  exactPageQuery_def locPageQuery_def fallbackQuery_def rowsOf_def pageValueOf_def
  orgFilter_def fieldsOf_def answerSnippetOf_def findDirectMatch_direct_first_def
  findDirectMatch_llm_first_def serializeChunks_def serializeChunk_def locPageNumber_def
  candidateLog_def logPage_def storeWithPage_def storeWithoutPage_def accepted_def
  sampleEnv_def sampleBody_def sampleBodyParaphrase_def sampleChunk_def firstDigits_def isDigit_def tierOf_def Let_def

lemma sample_direct:
  "POST_direct_first (parsesTo replyHi (span [0x48, 0x69])) sampleEnv (storeWithPage [sampleChunk])
     failing (Some sampleBody) =
   ([exactPageQuery (JStr [0x61]) (JStr [0x31]) None],
    Ok200 \<lparr>body_highlight = Some \<lparr>text' = [0x48, 0x69], chunkId = 7\<rparr>,
           body_chunks = [\<lparr>sc_id = 7, sc_text = [0x48, 0x69, 0x20, 0x59, 0x6F], sc_page = None,
                           sc_source = Some [0x61]\<rparr>]\<rparr>)"
  by (simp add: eval_handlers eval_llm eval_strings eval_regex)

lemma sample_llm:
  "POST_llm_first (parsesTo replyHi (span [0x48, 0x69])) sampleEnv (storeWithPage [sampleChunk])
     failing (Some sampleBody) =
   ([exactPageQuery (JStr [0x61]) (JStr [0x31]) None],
    Ok200 \<lparr>body_highlight = Some \<lparr>text' = [0x48, 0x69], chunkId = 7\<rparr>,
           body_chunks = [\<lparr>sc_id = 7, sc_text = [0x48, 0x69, 0x20, 0x59, 0x6F], sc_page = None,
                           sc_source = Some [0x61]\<rparr>]\<rparr>)"
  by (simp add: eval_handlers eval_llm eval_strings eval_regex)

section \<open>Properties of the extraction stage\<close>

lemma elementAt_Some:
  "elementAt xs n = Some x \<Longrightarrow> \<exists>i. n = Finite (of_nat i) \<and> i < length xs \<and> x = xs ! i"
proof (cases n)
  case (Finite q)
  assume a: "elementAt xs n = Some x"
  with Finite have q: "q = of_int \<lfloor>q\<rfloor>" "0 \<le> q" "q < of_nat (length xs)" "x = xs ! nat \<lfloor>q\<rfloor>"
    by (auto split: if_splits)
  let ?i = "nat \<lfloor>q\<rfloor>"
  have "0 \<le> \<lfloor>q\<rfloor>" using q(2) by simp
  then have "of_nat ?i = (of_int \<lfloor>q\<rfloor> :: rat)" by simp
  then have e: "q = of_nat ?i" using q(1) by simp
  then have "(of_nat ?i :: rat) < of_nat (length xs)" using q(3) by simp
  then have "?i < length xs" by (simp only: of_nat_less_iff)
  with e q(4) Finite show ?thesis by blast
qed auto

lemma validateSpan_Some:
  assumes "validateSpan gate cs parsed = Inr (Some h)"
  shows "\<exists>i exactText.
           getProp parsed ''chunkIndex'' = Some (JNum (Finite (of_nat i))) \<and>
           getProp parsed ''exactText'' = Some (JStr exactText) \<and>
           i < length cs \<and> exactText \<noteq> [] \<and> gate (contentOrEmpty (cs ! i)) exactText \<and>
           h = \<lparr>text' = exactText, chunkId = chunk_id (cs ! i)\<rparr>"
proof -
  from assms obtain n where n: "getProp parsed ''chunkIndex'' = Some (JNum n)"
    by (auto simp: validateSpan_def split: if_splits option.splits json.splits)
  from assms n obtain ex where ex: "getProp parsed ''exactText'' = Some (JStr ex)"
    by (auto simp: validateSpan_def split: if_splits option.splits json.splits)
  from assms n ex obtain t where t: "elementAt cs n = Some t"
    by (auto simp: validateSpan_def split: if_splits option.splits)
  from assms n ex t have g: "ex \<noteq> []" "gate (contentOrEmpty t) ex"
    "h = \<lparr>text' = ex, chunkId = chunk_id t\<rparr>"
    by (auto simp: validateSpan_def split: if_splits)
  from elementAt_Some[OF t] obtain i where "n = Finite (of_nat i)" "i < length cs" "t = cs ! i"
    by blast
  with n ex g show ?thesis by blast
qed

lemma llmStage_Some:
  assumes "llmStage gate B cs out = Some h"
  shows "\<exists>raw parsed. out = LlmReturns raw \<and> extractJson B raw = Inr (Some parsed) \<and>
           validateSpan gate cs parsed = Inr (Some h)"
  using assms
  by (auto simp: llmStage_def llmAttempt_def split: llmOutcome.splits sum.splits option.splits)

section \<open>Properties of the lookup and of the handlers\<close>

lemma firstDigits_Some:
  assumes "firstDigits s = Some d"
  shows "d \<noteq> [] \<and> (\<forall>c\<in>set d. isDigit c) \<and> sublist d s \<and>
         d = takeWhile isDigit (dropWhile (\<lambda>c. \<not> isDigit c) s)"
proof -
  let ?r = "dropWhile (\<lambda>c. \<not> isDigit c) s"
  from assms have ne: "?r \<noteq> []" and d: "d = takeWhile isDigit ?r"
    by (auto simp: firstDigits_def split: if_splits)
  have "isDigit (hd ?r)" using ne hd_dropWhile[of "\<lambda>c. \<not> isDigit c" s] by simp
  then have "d \<noteq> []" using d ne by (cases ?r) auto
  moreover have "\<forall>c\<in>set d. isDigit c" using d by (auto dest: set_takeWhileD)
  moreover have "sublist d ?r" using d by simp
  then have "sublist d s" using sublist_dropWhile sublist_order.order.trans by blast
  ultimately show ?thesis using d by blast
qed

lemma firstDigits_exists:
  assumes "\<exists>c\<in>set s. isDigit c"
  shows "\<exists>d. firstDigits s = Some d"
proof -
  have "dropWhile (\<lambda>c. \<not> isDigit c) s \<noteq> []" using assms by auto
  then show ?thesis by (simp add: firstDigits_def)
qed

lemma locate_direct_first_order:
  "locateChunks_direct_first B store filename page orgUrl = (qs, Located cs) \<Longrightarrow>
   qs \<noteq> [] \<and> prefix [exactPageQuery filename (pageValueOf B page) orgUrl] qs \<and>
   cs = rowsOf (store (last qs)) \<and> (\<forall>q\<in>set (butlast qs). rowsOf (store q) = [])"
  by (auto simp: locateChunks_direct_first_def Let_def split: if_splits)

lemma locate_llm_first_order:
  "locateChunks_llm_first B store filename page orgUrl = (qs, Located cs) \<Longrightarrow>
   qs \<noteq> [] \<and> prefix [exactPageQuery filename (pageValueOf B page) orgUrl] qs \<and>
   cs = rowsOf (store (last qs)) \<and> (\<forall>q\<in>set (butlast qs). rowsOf (store q) = [])"
  by (auto simp: locateChunks_llm_first_def Let_def split: if_splits option.splits)

lemma fst_respond: "fst (respond resolve r) = fst r"
  by (cases r) (auto simp: respond_def split: located.splits)

lemma respond_Located:
  "respond resolve (qs, Located cs) =
     (qs, if cs = [] then Ok200 \<lparr>body_highlight = None, body_chunks = []\<rparr> else resolve cs)"
  by (simp add: respond_def)

lemma POST_direct_first_accepted:
  "accepted env b filename page \<Longrightarrow>
   POST_direct_first B env store llm (Some b) =
     respond (resolve_direct_first B env llm (answerSnippetOf b))
       (locateChunks_direct_first B store filename page (getProp (fieldsOf b) ''orgUrl''))"
  by (simp add: accepted_def POST_direct_first_def)

lemma POST_llm_first_accepted:
  "accepted env b filename page \<Longrightarrow> requestLog (answerSnippetOf b) = Inr u \<Longrightarrow>
   POST_llm_first B env store llm (Some b) =
     respond (resolve_llm_first B env llm (answerSnippetOf b))
       (locateChunks_llm_first B store filename page (getProp (fieldsOf b) ''orgUrl''))"
  by (simp add: accepted_def POST_llm_first_def)

lemma applyToSnippet_Inr:
  "applyToSnippet f cs v = Inr r \<Longrightarrow> \<exists>s. v = JStr s \<and> f cs s = Inr r"
  by (cases v) auto

lemma resolve_direct_first_200:
  assumes "resolve_direct_first B env llm snip cs = Ok200 rb"
  shows "body_chunks rb = serializeChunks B cs"
    and "body_highlight rb = Some h \<Longrightarrow>
         \<exists>c\<in>set cs. chunk_id c = chunkId h \<and> includesStr (contentOrEmpty c) (text' h)"
proof -
  let ?dm = "if truthy (Some snip) then applyToSnippet findDirectMatch_direct_first cs snip else Inr None"
  from assms obtain r where r: "?dm = Inr r"
    by (cases ?dm) (auto simp: resolve_direct_first_def)
  show "body_chunks rb = serializeChunks B cs"
    using assms r by (cases r) (auto simp: resolve_direct_first_def)
  assume h: "body_highlight rb = Some h"
  show "\<exists>c\<in>set cs. chunk_id c = chunkId h \<and> includesStr (contentOrEmpty c) (text' h)"
  proof (cases r)
    case None
    with assms r h have "llmStage gate_direct_first B cs (llm snip cs) = Some h"
      by (auto simp: resolve_direct_first_def split: if_splits)
    from llmStage_Some[OF this] obtain parsed where
      "validateSpan gate_direct_first cs parsed = Inr (Some h)" by blast
    from validateSpan_Some[OF this] obtain i ex where
      "i < length cs" "includesStr (contentOrEmpty (cs ! i)) ex"
      "h = \<lparr>text' = ex, chunkId = chunk_id (cs ! i)\<rparr>"
      unfolding gate_direct_first_def by blast
    then show ?thesis by (intro bexI[of _ "cs ! i"]) auto
  next
    case (Some dm)
    with assms r h have dm: "dm = h" by (auto simp: resolve_direct_first_def)
    from r Some have "applyToSnippet findDirectMatch_direct_first cs snip = Inr (Some dm)"
      by (auto split: if_splits)
    from applyToSnippet_Inr[OF this] obtain s where
      "findDirectMatch_direct_first cs s = Inr (Some dm)" by blast
    then have "findDirectMatchLoop_direct_first (trim s) cs = Inr (Some dm)"
      by (auto simp: findDirectMatch_direct_first_def split: if_splits)
    from loop_direct_first_sound[OF this] dm show ?thesis by simp
  qed
qed

lemma resolve_llm_first_200:
  assumes "resolve_llm_first B env llm snip cs = Ok200 rb"
  shows "body_chunks rb = serializeChunks B cs"
  using assms
  by (auto simp: resolve_llm_first_def split: sum.splits option.splits if_splits)

lemma resolve_direct_first_string:
  "\<exists>rb. resolve_direct_first B env llm (JStr s) cs = Ok200 rb"
proof -
  obtain r where "findDirectMatch_direct_first cs s = Inr r"
    using findDirectMatch_direct_first_total by blast
  then show ?thesis by (cases r) (auto simp: resolve_direct_first_def)
qed

lemma resolve_llm_first_string:
  assumes "candidateLog cs = Inr u"
  shows "\<exists>rb. resolve_llm_first B env llm (JStr s) cs = Ok200 rb"
proof -
  obtain r where "findDirectMatch_llm_first cs s = Inr r"
    using findDirectMatch_llm_first_total by blast
  then show ?thesis using assms
    by (auto simp: resolve_llm_first_def split: option.splits)
qed

lemma serializeChunks_ids:
  "length (serializeChunks B cs) = length cs \<and> map sc_id (serializeChunks B cs) = map chunk_id cs
   \<and> map sc_text (serializeChunks B cs) = map contentOrEmpty cs"
  by (simp add: serializeChunks_def serializeChunk_def Let_def)

lemma candidateLog_iff: "candidateLog cs = Inr () \<longleftrightarrow> (\<forall>c\<in>set cs. metadata c \<noteq> JNull)"
proof -
  have "\<And>c. isl (logPage c) \<longleftrightarrow> metadata c = JNull"
    by (auto simp: logPage_def split: option.splits json.splits)
  then show ?thesis by (auto simp: candidateLog_def list_ex_iff)
qed

lemma llmStage_failures:
  "llmStage gate B cs LlmThrows = None"
  "extractJson B raw = Inl e \<Longrightarrow> llmStage gate B cs (LlmReturns raw) = None"
  "extractJson B raw = Inr None \<Longrightarrow> llmStage gate B cs (LlmReturns raw) = None"
  "extractJson B raw = Inr (Some parsed) \<Longrightarrow> validateSpan gate cs parsed = Inl e \<Longrightarrow>
     llmStage gate B cs (LlmReturns raw) = None"
  "extractJson B raw = Inr (Some parsed) \<Longrightarrow> validateSpan gate cs parsed = Inr None \<Longrightarrow>
     llmStage gate B cs (LlmReturns raw) = None"
  by (simp_all add: llmStage_def llmAttempt_def)


lemma POST_direct_first_400_iff:
  "snd (POST_direct_first B env store llm (Some b)) = Err400 ''filename and page are required'' \<longleftrightarrow>
     \<not> truthy (getProp (fieldsOf b) ''filename'') \<or> getProp (fieldsOf b) ''page'' = None"
proof (cases "\<not> truthy (getProp (fieldsOf b) ''filename'') \<or> getProp (fieldsOf b) ''page'' = None")
  case True
  then show ?thesis by (auto simp: POST_direct_first_def)
next
  case False
  then obtain filename page where fp: "getProp (fieldsOf b) ''filename'' = Some filename"
    "getProp (fieldsOf b) ''page'' = Some page"
    by (cases "getProp (fieldsOf b) ''filename''") auto
  let ?r = "locateChunks_direct_first B store filename page (getProp (fieldsOf b) ''orgUrl'')"
  have "snd (respond (resolve_direct_first B env llm (answerSnippetOf b)) ?r)
          \<noteq> Err400 ''filename and page are required''"
    by (cases ?r) (auto simp: respond_def resolve_direct_first_def
          split: located.splits sum.splits option.splits)
  with False fp show ?thesis by (auto simp: POST_direct_first_def)
qed

lemma POST_llm_first_400_iff:
  assumes "requestLog (answerSnippetOf b) = Inr ()"
  shows "snd (POST_llm_first B env store llm (Some b)) = Err400 ''filename and page are required'' \<longleftrightarrow>
     \<not> truthy (getProp (fieldsOf b) ''filename'') \<or> getProp (fieldsOf b) ''page'' = None"
proof (cases "\<not> truthy (getProp (fieldsOf b) ''filename'') \<or> getProp (fieldsOf b) ''page'' = None")
  case True
  then show ?thesis using assms by (auto simp: POST_llm_first_def)
next
  case False
  then obtain filename page where fp: "getProp (fieldsOf b) ''filename'' = Some filename"
    "getProp (fieldsOf b) ''page'' = Some page"
    by (cases "getProp (fieldsOf b) ''filename''") auto
  let ?r = "locateChunks_llm_first B store filename page (getProp (fieldsOf b) ''orgUrl'')"
  have "snd (respond (resolve_llm_first B env llm (answerSnippetOf b)) ?r)
          \<noteq> Err400 ''filename and page are required''"
    by (cases ?r) (auto simp: respond_def resolve_llm_first_def
          split: located.splits sum.splits option.splits)
  with False fp assms show ?thesis by (auto simp: POST_llm_first_def)
qed

lemma page_edge_values_pass:
  assumes "page = JNull \<or> page = JNum (Finite 0) \<or> page = JStr []"
    and "accepted env b filename page"
  shows "hd (fst (POST_direct_first B env store llm (Some b))) =
           exactPageQuery filename (pageValueOf B page) (getProp (fieldsOf b) ''orgUrl'')"
    and "pageValueOf B JNull = JNull" and "pageValueOf B (JStr []) = JStr []"
    and "pageValueOf B (JNum (Finite 0)) = JStr (numberToString B (Finite 0))"
proof -
  show "hd (fst (POST_direct_first B env store llm (Some b))) =
           exactPageQuery filename (pageValueOf B page) (getProp (fieldsOf b) ''orgUrl'')"
    using assms(2)
    by (simp add: POST_direct_first_accepted fst_respond locateChunks_direct_first_def Let_def)
qed (simp_all add: pageValueOf_def)

section \<open>The claims\<close>

text \<open>
  Each claim of the specification is stated below over the definitions above.
  Where the two revisions of the route differ, the statement names both.
\<close>

subsection \<open>Claim C1: the validation gate of the extraction stage\<close>




subsection \<open>Claim C2: soundness of the direct matcher\<close>




subsection \<open>Claim C3: completeness of the direct matcher under normalization\<close>




subsection \<open>Claim C4: the response carries every candidate chunk\<close>

text \<open>
  Claim C4 (fallback completeness). For a request that passes the validation
  and whose lookup gives a non-empty list \<open>cs\<close> of candidates, every response
  with status 200, in both revisions and whatever the language model and the
  direct matcher did, has as \<open>chunks\<close> the serialization of \<open>cs\<close>: the same
  length, the same ids in the same order. The response has status 200 when the
  answer snippet is a string (in \<^verbatim>\<open>part_006\<close>: and every candidate has a
  metadata object, which the candidate log reads).
\<close>

theorem C4_fallback_completeness:
  "(accepted env b filename page \<and>
    locateChunks_direct_first B store filename page (getProp (fieldsOf b) ''orgUrl'') = (qs, Located cs) \<and>
    cs \<noteq> [] \<longrightarrow>
      (\<forall>rb. snd (POST_direct_first B env store llm (Some b)) = Ok200 rb \<longrightarrow>
         body_chunks rb = serializeChunks B cs \<and> length (body_chunks rb) = length cs \<and>
         map sc_id (body_chunks rb) = map chunk_id cs) \<and>
      (\<forall>s. answerSnippetOf b = JStr s \<longrightarrow>
         (\<exists>rb. snd (POST_direct_first B env store llm (Some b)) = Ok200 rb))) \<and>
   (accepted env b filename page \<and>
    locateChunks_llm_first B store filename page (getProp (fieldsOf b) ''orgUrl'') = (qs', Located cs') \<and>
    cs' \<noteq> [] \<longrightarrow>
      (\<forall>rb. snd (POST_llm_first B env store llm (Some b)) = Ok200 rb \<longrightarrow>
         body_chunks rb = serializeChunks B cs' \<and> length (body_chunks rb) = length cs' \<and>
         map sc_id (body_chunks rb) = map chunk_id cs') \<and>
      (\<forall>s. answerSnippetOf b = JStr s \<and> (\<forall>c\<in>set cs'. metadata c \<noteq> JNull) \<longrightarrow>
         (\<exists>rb. snd (POST_llm_first B env store llm (Some b)) = Ok200 rb)))"
proof (rule conjI; rule impI)
  assume a: "accepted env b filename page \<and>
    locateChunks_direct_first B store filename page (getProp (fieldsOf b) ''orgUrl'') = (qs, Located cs) \<and>
    cs \<noteq> []"
  then have P: "snd (POST_direct_first B env store llm (Some b)) =
                  resolve_direct_first B env llm (answerSnippetOf b) cs"
    by (simp add: POST_direct_first_accepted[of env b filename page] respond_Located)
  have 1: "\<forall>rb. snd (POST_direct_first B env store llm (Some b)) = Ok200 rb \<longrightarrow>
         body_chunks rb = serializeChunks B cs \<and> length (body_chunks rb) = length cs \<and>
         map sc_id (body_chunks rb) = map chunk_id cs"
    using resolve_direct_first_200(1)[of B env llm "answerSnippetOf b" cs] serializeChunks_ids[of B cs]
    by (simp add: P)
  have 2: "\<forall>s. answerSnippetOf b = JStr s \<longrightarrow>
         (\<exists>rb. snd (POST_direct_first B env store llm (Some b)) = Ok200 rb)"
    using resolve_direct_first_string[of B env llm _ cs] by (simp add: P)
  show "(\<forall>rb. snd (POST_direct_first B env store llm (Some b)) = Ok200 rb \<longrightarrow>
         body_chunks rb = serializeChunks B cs \<and> length (body_chunks rb) = length cs \<and>
         map sc_id (body_chunks rb) = map chunk_id cs) \<and>
      (\<forall>s. answerSnippetOf b = JStr s \<longrightarrow>
         (\<exists>rb. snd (POST_direct_first B env store llm (Some b)) = Ok200 rb))"
    by (rule conjI[OF 1 2])
next
  assume a: "accepted env b filename page \<and>
    locateChunks_llm_first B store filename page (getProp (fieldsOf b) ''orgUrl'') = (qs', Located cs') \<and>
    cs' \<noteq> []"
  have 1: "\<forall>rb. snd (POST_llm_first B env store llm (Some b)) = Ok200 rb \<longrightarrow>
         body_chunks rb = serializeChunks B cs' \<and> length (body_chunks rb) = length cs' \<and>
         map sc_id (body_chunks rb) = map chunk_id cs'"
  proof (cases "requestLog (answerSnippetOf b)")
    case (Inl e)
    then show ?thesis by (simp add: POST_llm_first_def)
  next
    case (Inr u)
    with a have "snd (POST_llm_first B env store llm (Some b)) =
                   resolve_llm_first B env llm (answerSnippetOf b) cs'"
      by (simp add: POST_llm_first_accepted[of env b filename page] respond_Located)
    then show ?thesis
      using resolve_llm_first_200[of B env llm "answerSnippetOf b" cs'] serializeChunks_ids[of B cs']
      by simp
  qed
  have 2: "\<forall>s. answerSnippetOf b = JStr s \<and> (\<forall>c\<in>set cs'. metadata c \<noteq> JNull) \<longrightarrow>
         (\<exists>rb. snd (POST_llm_first B env store llm (Some b)) = Ok200 rb)"
  proof (rule allI, rule impI)
    fix s assume s: "answerSnippetOf b = JStr s \<and> (\<forall>c\<in>set cs'. metadata c \<noteq> JNull)"
    then have "requestLog (answerSnippetOf b) = Inr ()" by simp
    with a have "snd (POST_llm_first B env store llm (Some b)) =
                   resolve_llm_first B env llm (answerSnippetOf b) cs'"
      by (simp add: POST_llm_first_accepted[of env b filename page] respond_Located)
    moreover have "candidateLog cs' = Inr ()" using s candidateLog_iff by blast
    ultimately show "\<exists>rb. snd (POST_llm_first B env store llm (Some b)) = Ok200 rb"
      using s resolve_llm_first_string[of cs' "()" B env llm s] by simp
  qed
  show "(\<forall>rb. snd (POST_llm_first B env store llm (Some b)) = Ok200 rb \<longrightarrow>
         body_chunks rb = serializeChunks B cs' \<and> length (body_chunks rb) = length cs' \<and>
         map sc_id (body_chunks rb) = map chunk_id cs') \<and>
      (\<forall>s. answerSnippetOf b = JStr s \<and> (\<forall>c\<in>set cs'. metadata c \<noteq> JNull) \<longrightarrow>
         (\<exists>rb. snd (POST_llm_first B env store llm (Some b)) = Ok200 rb))"
    by (rule conjI[OF 1 2])
qed

text \<open>
  Claim C4 on the request for page 5 of the file \<open>a\<close> with the snippet \<open>hi\<close>,
  a store holding the chunk \<open>Hi Yo\<close> and a model that fails: both revisions
  answer 200 with one chunk.
\<close>

theorem C4_fallback_completeness_witness:
  "accepted sampleEnv sampleBody (JStr [0x61]) (JNum (Finite 5)) \<and>
   locateChunks_direct_first (parsesTo replyHi (span [0x48, 0x69])) (storeWithPage [sampleChunk])
     (JStr [0x61]) (JNum (Finite 5)) (getProp (fieldsOf sampleBody) ''orgUrl'')
     = ([exactPageQuery (JStr [0x61]) (JStr [0x31]) None], Located [sampleChunk]) \<and>
   locateChunks_llm_first (parsesTo replyHi (span [0x48, 0x69])) (storeWithPage [sampleChunk])
     (JStr [0x61]) (JNum (Finite 5)) (getProp (fieldsOf sampleBody) ''orgUrl'')
     = ([exactPageQuery (JStr [0x61]) (JStr [0x31]) None], Located [sampleChunk]) \<and>
   (\<exists>rb. snd (POST_direct_first (parsesTo replyHi (span [0x48, 0x69])) sampleEnv
                (storeWithPage [sampleChunk]) failing (Some sampleBody)) = Ok200 rb \<and>
         length (body_chunks rb) = length [sampleChunk]) \<and>
   (\<exists>rb. snd (POST_llm_first (parsesTo replyHi (span [0x48, 0x69])) sampleEnv
                (storeWithPage [sampleChunk]) failing (Some sampleBody)) = Ok200 rb \<and>
         length (body_chunks rb) = length [sampleChunk])"
proof -
  let ?B = "parsesTo replyHi (span [0x48, 0x69])"
  let ?store = "storeWithPage [sampleChunk]"
  let ?q = "exactPageQuery (JStr [0x61]) (JStr [0x31]) None"
  let ?org = "getProp (fieldsOf sampleBody) ''orgUrl''"
  let ?rb = "\<lparr>body_highlight = Some \<lparr>text' = [0x48, 0x69], chunkId = 7\<rparr>,
             body_chunks = [\<lparr>sc_id = 7, sc_text = [0x48, 0x69, 0x20, 0x59, 0x6F], sc_page = None,
                             sc_source = Some [0x61]\<rparr>]\<rparr>"
  have a: "accepted sampleEnv sampleBody (JStr [0x61]) (JNum (Finite 5))"
    by (simp add: eval_handlers)
  have l1: "locateChunks_direct_first ?B ?store (JStr [0x61]) (JNum (Finite 5)) ?org
              = ([?q], Located [sampleChunk])"
    by (simp add: eval_handlers parsesTo_def)
  have l2: "locateChunks_llm_first ?B ?store (JStr [0x61]) (JNum (Finite 5)) ?org
              = ([?q], Located [sampleChunk])"
    by (simp add: eval_handlers parsesTo_def)
  have p1: "snd (POST_direct_first ?B sampleEnv ?store failing (Some sampleBody)) = Ok200 ?rb"
    by (simp add: sample_direct)
  have p2: "snd (POST_llm_first ?B sampleEnv ?store failing (Some sampleBody)) = Ok200 ?rb"
    by (simp add: sample_llm)
  from C4_fallback_completeness[of sampleEnv sampleBody "JStr [0x61]" "JNum (Finite 5)" ?B ?store
         "[?q]" "[sampleChunk]" failing "[?q]" "[sampleChunk]"] a l1 l2 p1 p2
  have "length (body_chunks ?rb) = length [sampleChunk]" by blast
  with a l1 l2 p1 p2 show ?thesis by blast
qed

subsection \<open>Claim C5: the lookup stops at the first tier that has rows\<close>

text \<open>
  Claim C5 (monotonic fallback of the chunk lookup). In both revisions, when the
  query for the exact page (source equal to the file name, page equal to the
  stringified page, organisation filter when given) succeeds with at least one
  row, it is the only query issued and its rows are the candidates. In
  general the queries are issued in the order of their tiers, starting with the
  exact page; every query but the last came back without rows, and the
  candidates are the rows of the last. The same holds of the handlers: for an
  accepted request with rows for the exact page, the handler sends that one
  query.
\<close>

theorem C5_tier_short_circuit:
  "(qr_error (store (exactPageQuery filename (pageValueOf B page) orgUrl)) = None \<and>
    rowsOf (store (exactPageQuery filename (pageValueOf B page) orgUrl)) \<noteq> [] \<longrightarrow>
      locateChunks_direct_first B store filename page orgUrl =
        ([exactPageQuery filename (pageValueOf B page) orgUrl],
         Located (rowsOf (store (exactPageQuery filename (pageValueOf B page) orgUrl)))) \<and>
      locateChunks_llm_first B store filename page orgUrl =
        ([exactPageQuery filename (pageValueOf B page) orgUrl],
         Located (rowsOf (store (exactPageQuery filename (pageValueOf B page) orgUrl))))) \<and>
   (locateChunks_direct_first B store filename page orgUrl = (qs, Located cs) \<or>
    locateChunks_llm_first B store filename page orgUrl = (qs, Located cs) \<longrightarrow>
      qs \<noteq> [] \<and> hd qs = exactPageQuery filename (pageValueOf B page) orgUrl \<and>
      sorted_wrt (<) (map tierOf qs) \<and>
      (\<forall>q\<in>set (butlast qs). rowsOf (store q) = []) \<and> cs = rowsOf (store (last qs))) \<and>
   (accepted env b filename page \<and>
    qr_error (store (exactPageQuery filename (pageValueOf B page) (getProp (fieldsOf b) ''orgUrl''))) = None \<and>
    rowsOf (store (exactPageQuery filename (pageValueOf B page) (getProp (fieldsOf b) ''orgUrl''))) \<noteq> [] \<longrightarrow>
      fst (POST_direct_first B env store llm (Some b)) =
        [exactPageQuery filename (pageValueOf B page) (getProp (fieldsOf b) ''orgUrl'')] \<and>
      (requestLog (answerSnippetOf b) = Inr () \<longrightarrow>
         fst (POST_llm_first B env store llm (Some b)) =
           [exactPageQuery filename (pageValueOf B page) (getProp (fieldsOf b) ''orgUrl'')]))"
proof (intro conjI; rule impI)
  assume "qr_error (store (exactPageQuery filename (pageValueOf B page) orgUrl)) = None \<and>
    rowsOf (store (exactPageQuery filename (pageValueOf B page) orgUrl)) \<noteq> []"
  then show "locateChunks_direct_first B store filename page orgUrl =
        ([exactPageQuery filename (pageValueOf B page) orgUrl],
         Located (rowsOf (store (exactPageQuery filename (pageValueOf B page) orgUrl)))) \<and>
      locateChunks_llm_first B store filename page orgUrl =
        ([exactPageQuery filename (pageValueOf B page) orgUrl],
         Located (rowsOf (store (exactPageQuery filename (pageValueOf B page) orgUrl))))"
    by (simp add: locateChunks_direct_first_def locateChunks_llm_first_def Let_def)
next
  assume "locateChunks_direct_first B store filename page orgUrl = (qs, Located cs) \<or>
    locateChunks_llm_first B store filename page orgUrl = (qs, Located cs)"
  then show "qs \<noteq> [] \<and> hd qs = exactPageQuery filename (pageValueOf B page) orgUrl \<and>
      sorted_wrt (<) (map tierOf qs) \<and>
      (\<forall>q\<in>set (butlast qs). rowsOf (store q) = []) \<and> cs = rowsOf (store (last qs))"
  proof
    assume "locateChunks_direct_first B store filename page orgUrl = (qs, Located cs)"
    then show ?thesis
      by (auto simp: locateChunks_direct_first_def Let_def tierOf_def exactPageQuery_def
            fallbackQuery_def split: if_splits)
  next
    assume "locateChunks_llm_first B store filename page orgUrl = (qs, Located cs)"
    then show ?thesis
      by (auto simp: locateChunks_llm_first_def Let_def tierOf_def exactPageQuery_def
            fallbackQuery_def locPageQuery_def split: if_splits option.splits)
  qed
next
  let ?org = "getProp (fieldsOf b) ''orgUrl''"
  assume a: "accepted env b filename page \<and>
    qr_error (store (exactPageQuery filename (pageValueOf B page) ?org)) = None \<and>
    rowsOf (store (exactPageQuery filename (pageValueOf B page) ?org)) \<noteq> []"
  then have acc: "accepted env b filename page" by blast
  from a have e: "qr_error (store (exactPageQuery filename (pageValueOf B page) ?org)) = None"
    by blast
  from a have r: "rowsOf (store (exactPageQuery filename (pageValueOf B page) ?org)) \<noteq> []"
    by blast
  have l1: "fst (locateChunks_direct_first B store filename page ?org) =
              [exactPageQuery filename (pageValueOf B page) ?org]"
    by (simp add: locateChunks_direct_first_def Let_def e r)
  have l2: "fst (locateChunks_llm_first B store filename page ?org) =
              [exactPageQuery filename (pageValueOf B page) ?org]"
    by (simp add: locateChunks_llm_first_def Let_def e r)
  have 1: "fst (POST_direct_first B env store llm (Some b)) =
             [exactPageQuery filename (pageValueOf B page) ?org]"
    by (simp add: POST_direct_first_accepted[OF acc] fst_respond l1)
  have 2: "requestLog (answerSnippetOf b) = Inr () \<longrightarrow>
         fst (POST_llm_first B env store llm (Some b)) =
           [exactPageQuery filename (pageValueOf B page) ?org]"
    by (simp add: POST_llm_first_accepted[OF acc] fst_respond l2)
  show "fst (POST_direct_first B env store llm (Some b)) =
        [exactPageQuery filename (pageValueOf B page) ?org] \<and>
      (requestLog (answerSnippetOf b) = Inr () \<longrightarrow>
         fst (POST_llm_first B env store llm (Some b)) =
           [exactPageQuery filename (pageValueOf B page) ?org])"
    by (rule conjI[OF 1 2])
qed

text \<open>
  Claim C5 on a store that has the chunk \<open>Hi Yo\<close> for page 5 of the file \<open>a\<close>.
\<close>

theorem C5_tier_short_circuit_witness:
  "qr_error (storeWithPage [sampleChunk] (exactPageQuery (JStr [0x61]) (JStr [0x35]) None)) = None \<and>
   rowsOf (storeWithPage [sampleChunk] (exactPageQuery (JStr [0x61]) (JStr [0x35]) None)) \<noteq> [] \<and>
   locateChunks_direct_first (parsesTo [] JNull) (storeWithPage [sampleChunk]) (JStr [0x61])
     (JStr [0x35]) None
     = ([exactPageQuery (JStr [0x61]) (JStr [0x35]) None], Located [sampleChunk]) \<and>
   locateChunks_llm_first (parsesTo [] JNull) (storeWithPage [sampleChunk]) (JStr [0x61])
     (JStr [0x35]) None
     = ([exactPageQuery (JStr [0x61]) (JStr [0x35]) None], Located [sampleChunk]) \<and>
   sorted_wrt (<) (map tierOf [exactPageQuery (JStr [0x61]) (JStr [0x35]) None])"
proof -
  let ?B = "parsesTo [] JNull"
  let ?store = "storeWithPage [sampleChunk]"
  let ?q = "exactPageQuery (JStr [0x61]) (JStr [0x35]) None"
  have p: "pageValueOf ?B (JStr [0x35]) = JStr [0x35]" by (simp add: pageValueOf_def)
  have 1: "qr_error (?store ?q) = None" "rowsOf (?store ?q) \<noteq> []" "rowsOf (?store ?q) = [sampleChunk]"
    by (simp_all add: storeWithPage_def rowsOf_def)
  note C5 = C5_tier_short_circuit[where store = ?store and filename = "JStr [0x61]" and B = ?B
      and page = "JStr [0x35]" and orgUrl = None and qs = "[?q]" and cs = "[sampleChunk]"]
  from C5[THEN conjunct1] 1 p
  have 2: "locateChunks_direct_first ?B ?store (JStr [0x61]) (JStr [0x35]) None = ([?q], Located [sampleChunk])"
    "locateChunks_llm_first ?B ?store (JStr [0x61]) (JStr [0x35]) None = ([?q], Located [sampleChunk])"
    by simp_all
  from C5[THEN conjunct2, THEN conjunct1] 2 p
  have "sorted_wrt (<) (map tierOf [?q])" by simp
  with 1 2 show ?thesis by simp
qed

subsection \<open>Claim C6: the lookup by the nested page number\<close>

text \<open>
  Claim C6, as stated, fails on \<^verbatim>\<open>route.ts\<close>, whose lookup has no second tier.
  The store has no row for the exact page \<open>5\<close> of the file \<open>a\<close>, the chunk 7
  under \<open>metadata.loc.pageNumber = 5\<close> and the chunk 8 for the file: the lookup
  of \<^verbatim>\<open>route.ts\<close> sends the exact-page query and the capped query and returns
  chunk 8.
\<close>

theorem C6_counterexample:
  "qr_error (storeWithoutPage [sampleChunk] [sampleChunk\<lparr>chunk_id := 8\<rparr>]
       (exactPageQuery (JStr [0x61]) (JStr [0x35]) None)) = None \<and>
   rowsOf (storeWithoutPage [sampleChunk] [sampleChunk\<lparr>chunk_id := 8\<rparr>]
       (exactPageQuery (JStr [0x61]) (JStr [0x35]) None)) = [] \<and>
   pageNumberFallback (parsesTo [] JNull) (JStr [0x35]) = Some [0x35] \<and>
   rowsOf (storeWithoutPage [sampleChunk] [sampleChunk\<lparr>chunk_id := 8\<rparr>]
       (locPageQuery (JStr [0x61]) [0x35] None)) = [sampleChunk] \<and>
   locateChunks_direct_first (parsesTo [] JNull)
       (storeWithoutPage [sampleChunk] [sampleChunk\<lparr>chunk_id := 8\<rparr>]) (JStr [0x61]) (JStr [0x35]) None
     = ([exactPageQuery (JStr [0x61]) (JStr [0x35]) None, fallbackQuery (JStr [0x61]) None],
        Located [sampleChunk\<lparr>chunk_id := 8\<rparr>])"
  by (simp add: eval_handlers)

text \<open>
  Claim C6, amended (alternate page field). In \<^verbatim>\<open>part_006\<close>: when the query for
  the exact page succeeds without rows and \<open>pageNumberFallback\<close> is a non-empty
  string \<open>pn\<close>, the lookup next asks for the rows of the file whose
  \<open>metadata.loc.pageNumber\<close> equals \<open>pn\<close> (with the organisation filter when
  given); it returns them when there are some and sends the capped query
  otherwise. For a page given as a string \<open>pn\<close> is its first run of digits, and
  there is one whenever the string has a digit; for a page given as a number
  \<open>pn\<close> is the number's string. In \<^verbatim>\<open>route.ts\<close> there is no such tier: after
  an exact-page query without rows the lookup sends the capped query.
\<close>

theorem C6_alternate_page_field:
  "(qr_error (store (exactPageQuery filename (pageValueOf B page) orgUrl)) = None \<and>
    rowsOf (store (exactPageQuery filename (pageValueOf B page) orgUrl)) = [] \<and>
    pageNumberFallback B page = Some pn \<and> pn \<noteq> [] \<longrightarrow>
      (rowsOf (store (locPageQuery filename pn orgUrl)) \<noteq> [] \<longrightarrow>
         locateChunks_llm_first B store filename page orgUrl =
           ([exactPageQuery filename (pageValueOf B page) orgUrl, locPageQuery filename pn orgUrl],
            Located (rowsOf (store (locPageQuery filename pn orgUrl))))) \<and>
      (rowsOf (store (locPageQuery filename pn orgUrl)) = [] \<longrightarrow>
         locateChunks_llm_first B store filename page orgUrl =
           ([exactPageQuery filename (pageValueOf B page) orgUrl, locPageQuery filename pn orgUrl,
             fallbackQuery filename orgUrl],
            Located (rowsOf (store (fallbackQuery filename orgUrl))))) \<and>
      q_locPageNumber (locPageQuery filename pn orgUrl) = Some pn \<and>
      q_source (locPageQuery filename pn orgUrl) = filename \<and>
      q_orgUrl (locPageQuery filename pn orgUrl) = (if truthy orgUrl then orgUrl else None) \<and>
      (\<forall>s. page = JStr s \<longrightarrow>
         pn = takeWhile isDigit (dropWhile (\<lambda>c. \<not> isDigit c) s) \<and> (\<forall>c\<in>set pn. isDigit c)) \<and>
      (\<forall>n. page = JNum n \<longrightarrow> pn = numberToString B n)) \<and>
   (\<forall>s. (\<exists>c\<in>set s. isDigit c) \<longrightarrow> (\<exists>d. pageNumberFallback B (JStr s) = Some d \<and> d \<noteq> [])) \<and>
   (qr_error (store (exactPageQuery filename (pageValueOf B page) orgUrl)) = None \<and>
    rowsOf (store (exactPageQuery filename (pageValueOf B page) orgUrl)) = [] \<longrightarrow>
      locateChunks_direct_first B store filename page orgUrl =
        ([exactPageQuery filename (pageValueOf B page) orgUrl, fallbackQuery filename orgUrl],
         Located (rowsOf (store (fallbackQuery filename orgUrl)))))"
proof -
  let ?q1 = "exactPageQuery filename (pageValueOf B page) orgUrl"
  let ?q2 = "locPageQuery filename pn orgUrl"
  let ?q3 = "fallbackQuery filename orgUrl"
  have A: "qr_error (store ?q1) = None \<and> rowsOf (store ?q1) = [] \<and>
           pageNumberFallback B page = Some pn \<and> pn \<noteq> [] \<longrightarrow>
      (rowsOf (store ?q2) \<noteq> [] \<longrightarrow>
         locateChunks_llm_first B store filename page orgUrl = ([?q1, ?q2], Located (rowsOf (store ?q2)))) \<and>
      (rowsOf (store ?q2) = [] \<longrightarrow>
         locateChunks_llm_first B store filename page orgUrl =
           ([?q1, ?q2, ?q3], Located (rowsOf (store ?q3)))) \<and>
      q_locPageNumber ?q2 = Some pn \<and> q_source ?q2 = filename \<and>
      q_orgUrl ?q2 = (if truthy orgUrl then orgUrl else None) \<and>
      (\<forall>s. page = JStr s \<longrightarrow>
         pn = takeWhile isDigit (dropWhile (\<lambda>c. \<not> isDigit c) s) \<and> (\<forall>c\<in>set pn. isDigit c)) \<and>
      (\<forall>n. page = JNum n \<longrightarrow> pn = numberToString B n)"
  proof
    assume a: "qr_error (store ?q1) = None \<and> rowsOf (store ?q1) = [] \<and>
           pageNumberFallback B page = Some pn \<and> pn \<noteq> []"
    have 1: "rowsOf (store ?q2) \<noteq> [] \<longrightarrow>
         locateChunks_llm_first B store filename page orgUrl = ([?q1, ?q2], Located (rowsOf (store ?q2)))"
      using a by (simp add: locateChunks_llm_first_def Let_def)
    have 2: "rowsOf (store ?q2) = [] \<longrightarrow>
         locateChunks_llm_first B store filename page orgUrl =
           ([?q1, ?q2, ?q3], Located (rowsOf (store ?q3)))"
      using a by (simp add: locateChunks_llm_first_def Let_def)
    have 3: "q_locPageNumber ?q2 = Some pn" "q_source ?q2 = filename"
      "q_orgUrl ?q2 = (if truthy orgUrl then orgUrl else None)"
      by (simp_all add: locPageQuery_def orgFilter_def)
    have 4: "\<forall>s. page = JStr s \<longrightarrow>
         pn = takeWhile isDigit (dropWhile (\<lambda>c. \<not> isDigit c) s) \<and> (\<forall>c\<in>set pn. isDigit c)"
    proof (rule allI, rule impI)
      fix s assume "page = JStr s"
      with a have "firstDigits s = Some pn" by simp
      from firstDigits_Some[OF this]
      show "pn = takeWhile isDigit (dropWhile (\<lambda>c. \<not> isDigit c) s) \<and> (\<forall>c\<in>set pn. isDigit c)"
        by blast
    qed
    have 5: "\<forall>n. page = JNum n \<longrightarrow> pn = numberToString B n" using a by auto
    show "(rowsOf (store ?q2) \<noteq> [] \<longrightarrow>
         locateChunks_llm_first B store filename page orgUrl = ([?q1, ?q2], Located (rowsOf (store ?q2)))) \<and>
      (rowsOf (store ?q2) = [] \<longrightarrow>
         locateChunks_llm_first B store filename page orgUrl =
           ([?q1, ?q2, ?q3], Located (rowsOf (store ?q3)))) \<and>
      q_locPageNumber ?q2 = Some pn \<and> q_source ?q2 = filename \<and>
      q_orgUrl ?q2 = (if truthy orgUrl then orgUrl else None) \<and>
      (\<forall>s. page = JStr s \<longrightarrow>
         pn = takeWhile isDigit (dropWhile (\<lambda>c. \<not> isDigit c) s) \<and> (\<forall>c\<in>set pn. isDigit c)) \<and>
      (\<forall>n. page = JNum n \<longrightarrow> pn = numberToString B n)"
      by (rule conjI[OF 1 conjI[OF 2 conjI[OF 3(1) conjI[OF 3(2) conjI[OF 3(3) conjI[OF 4 5]]]]]])
  qed
  have B: "\<forall>s. (\<exists>c\<in>set s. isDigit c) \<longrightarrow> (\<exists>d. pageNumberFallback B (JStr s) = Some d \<and> d \<noteq> [])"
  proof (rule allI, rule impI)
    fix s :: jsstring
    assume "\<exists>c\<in>set s. isDigit c"
    then obtain d where d: "firstDigits s = Some d" using firstDigits_exists by blast
    from firstDigits_Some[OF d] have "d \<noteq> []" by blast
    with d show "\<exists>d. pageNumberFallback B (JStr s) = Some d \<and> d \<noteq> []" by simp
  qed
  have C: "qr_error (store ?q1) = None \<and> rowsOf (store ?q1) = [] \<longrightarrow>
      locateChunks_direct_first B store filename page orgUrl =
        ([?q1, ?q3], Located (rowsOf (store ?q3)))"
    by (simp add: locateChunks_direct_first_def Let_def)
  show ?thesis by (rule conjI[OF A conjI[OF B C]])
qed

text \<open>
  The amended claim on the page \<open>p5x\<close>: the second query asks for page number
  \<open>5\<close> and its row is returned.
\<close>

theorem C6_alternate_page_field_witness:
  "qr_error (storeWithoutPage [sampleChunk] [] (exactPageQuery (JStr [0x61]) (JStr [0x70, 0x35, 0x78]) None)) = None \<and>
   rowsOf (storeWithoutPage [sampleChunk] [] (exactPageQuery (JStr [0x61]) (JStr [0x70, 0x35, 0x78]) None)) = [] \<and>
   pageNumberFallback (parsesTo [] JNull) (JStr [0x70, 0x35, 0x78]) = Some [0x35] \<and>
   locateChunks_llm_first (parsesTo [] JNull) (storeWithoutPage [sampleChunk] []) (JStr [0x61])
       (JStr [0x70, 0x35, 0x78]) None
     = ([exactPageQuery (JStr [0x61]) (JStr [0x70, 0x35, 0x78]) None,
         locPageQuery (JStr [0x61]) [0x35] None], Located [sampleChunk])"
proof -
  let ?B = "parsesTo [] JNull"
  let ?store = "storeWithoutPage [sampleChunk] []"
  let ?p = "JStr [0x70, 0x35, 0x78]"
  let ?q = "exactPageQuery (JStr [0x61]) ?p None"
  have p: "pageValueOf ?B ?p = ?p" by (simp add: pageValueOf_def)
  have 1: "qr_error (?store ?q) = None" "rowsOf (?store ?q) = []"
    by (simp_all add: storeWithoutPage_def rowsOf_def exactPageQuery_def)
  have 2: "pageNumberFallback ?B ?p = Some [0x35]" by (simp add: firstDigits_def isDigit_def)
  have 3: "rowsOf (?store (locPageQuery (JStr [0x61]) [0x35] None)) = [sampleChunk]"
    by (simp add: storeWithoutPage_def rowsOf_def locPageQuery_def)
  from C6_alternate_page_field[of ?store "JStr [0x61]" ?B ?p None "[0x35]", THEN conjunct1] 1 2 3 p
  have "locateChunks_llm_first ?B ?store (JStr [0x61]) ?p None
          = ([?q, locPageQuery (JStr [0x61]) [0x35] None], Located [sampleChunk])"
    by simp
  with 1 2 show ?thesis by simp
qed

subsection \<open>Claim C7: a failure of the language model is not fatal\<close>



subsection \<open>Claim C8: the normalizer is idempotent\<close>


subsection \<open>Claim C9: the highlights of the direct-match-first revision are verbatim\<close>

text \<open>
  Claim C9 (verbatim highlight of the direct-match-first revision). Every
  highlight in a response of \<^verbatim>\<open>route.ts\<close> with status 200, from the direct
  matcher or from the language model, has a text that is a substring,
  character for character, of the raw content of a candidate chunk whose id is
  the \<open>chunkId\<close> of the highlight: a row of one of the queries sent, which
  appears in the \<open>chunks\<close> of the same response with that id and that content
  as \<open>text\<close>.
\<close>

theorem C9_verbatim_highlight:
  "snd (POST_direct_first B env store llm body) = Ok200 rb \<and> body_highlight rb = Some h \<longrightarrow>
     (\<exists>q\<in>set (fst (POST_direct_first B env store llm body)). \<exists>c\<in>set (rowsOf (store q)).
         chunk_id c = chunkId h \<and> includesStr (contentOrEmpty c) (text' h)) \<and>
     (\<exists>sc\<in>set (body_chunks rb). sc_id sc = chunkId h \<and> includesStr (sc_text sc) (text' h))"
proof
  assume a: "snd (POST_direct_first B env store llm body) = Ok200 rb \<and> body_highlight rb = Some h"
  then obtain b where b: "body = Some b" by (cases body) (auto simp: POST_direct_first_def)
  from a b obtain filename page where acc: "accepted env b filename page"
    by (cases "getProp (fieldsOf b) ''filename''"; cases "getProp (fieldsOf b) ''page''")
       (auto simp: POST_direct_first_def accepted_def split: if_splits)
  let ?loc = "locateChunks_direct_first B store filename page (getProp (fieldsOf b) ''orgUrl'')"
  have P: "POST_direct_first B env store llm body =
             respond (resolve_direct_first B env llm (answerSnippetOf b)) ?loc"
    using acc b by (simp add: POST_direct_first_accepted)
  obtain qs r where loc: "?loc = (qs, r)" by (cases ?loc) auto
  from a P loc obtain cs where r: "r = Located cs"
    by (cases r) (auto simp: respond_def)
  from a P loc r have ne: "cs \<noteq> []" and res: "resolve_direct_first B env llm (answerSnippetOf b) cs = Ok200 rb"
    by (auto simp: respond_def split: if_splits)
  from resolve_direct_first_200(2)[OF res] a obtain c where
    c: "c \<in> set cs" "chunk_id c = chunkId h" "includesStr (contentOrEmpty c) (text' h)" by blast
  from locate_direct_first_order[of B store filename page "getProp (fieldsOf b) ''orgUrl''" qs cs] loc r
  have o: "qs \<noteq> []" "cs = rowsOf (store (last qs))" by auto
  have f: "fst (POST_direct_first B env store llm body) = qs" using P loc by (simp add: fst_respond)
  have 1: "\<exists>q\<in>set (fst (POST_direct_first B env store llm body)). \<exists>c\<in>set (rowsOf (store q)).
         chunk_id c = chunkId h \<and> includesStr (contentOrEmpty c) (text' h)"
    using c o f by (intro bexI[of _ "last qs"] bexI[of _ c]) auto
  have "body_chunks rb = serializeChunks B cs" using resolve_direct_first_200(1)[OF res] .
  then have "serializeChunk B c \<in> set (body_chunks rb)" using c(1) by (simp add: serializeChunks_def)
  moreover have "sc_id (serializeChunk B c) = chunk_id c" "sc_text (serializeChunk B c) = contentOrEmpty c"
    by (simp_all add: serializeChunk_def Let_def)
  ultimately have 2: "\<exists>sc\<in>set (body_chunks rb). sc_id sc = chunkId h \<and> includesStr (sc_text sc) (text' h)"
    using c by (intro bexI[of _ "serializeChunk B c"]) auto
  show "(\<exists>q\<in>set (fst (POST_direct_first B env store llm body)). \<exists>c\<in>set (rowsOf (store q)).
         chunk_id c = chunkId h \<and> includesStr (contentOrEmpty c) (text' h)) \<and>
     (\<exists>sc\<in>set (body_chunks rb). sc_id sc = chunkId h \<and> includesStr (sc_text sc) (text' h))"
    by (rule conjI[OF 1 2])
qed

text \<open>
  Claim C9 on the request with the snippet \<open>hi\<close> and the chunk \<open>Hi Yo\<close>: the
  highlight is \<open>Hi\<close>, as the chunk spells it.
\<close>

theorem C9_verbatim_highlight_witness:
  "snd (POST_direct_first (parsesTo replyHi (span [0x48, 0x69])) sampleEnv (storeWithPage [sampleChunk])
          failing (Some sampleBody))
     = Ok200 \<lparr>body_highlight = Some \<lparr>text' = [0x48, 0x69], chunkId = 7\<rparr>,
              body_chunks = [\<lparr>sc_id = 7, sc_text = [0x48, 0x69, 0x20, 0x59, 0x6F], sc_page = None,
                              sc_source = Some [0x61]\<rparr>]\<rparr> \<and>
   (\<exists>sc\<in>set [\<lparr>sc_id = 7, sc_text = [0x48, 0x69, 0x20, 0x59, 0x6F], sc_page = None,
                 sc_source = Some [0x61]\<rparr>].
       sc_id sc = 7 \<and> includesStr (sc_text sc) [0x48, 0x69])"
proof -
  let ?B = "parsesTo replyHi (span [0x48, 0x69])"
  let ?store = "storeWithPage [sampleChunk]"
  let ?h = "\<lparr>text' = [0x48, 0x69], chunkId = 7\<rparr>"
  let ?rb = "\<lparr>body_highlight = Some ?h,
             body_chunks = [\<lparr>sc_id = 7, sc_text = [0x48, 0x69, 0x20, 0x59, 0x6F], sc_page = None,
                             sc_source = Some [0x61]\<rparr>]\<rparr>"
  have p: "snd (POST_direct_first ?B sampleEnv ?store failing (Some sampleBody)) = Ok200 ?rb"
    by (simp add: sample_direct)
  from C9_verbatim_highlight[of ?B sampleEnv ?store failing "Some sampleBody" ?rb ?h] p
  have "\<exists>sc\<in>set (body_chunks ?rb). sc_id sc = chunkId ?h \<and> includesStr (sc_text sc) (text' ?h)"
    by simp
  with p show ?thesis by simp
qed

subsection \<open>Claim C10: the validation of the request\<close>

text \<open>
  Claim C10 at the body \<^verbatim>\<open>{"answerSnippet":5}\<close>, which has no file name and no
  page. The handler of \<^verbatim>\<open>route.ts\<close> rejects it with status 400. The handler of
  \<^verbatim>\<open>part_006\<close> logs the request before it validates it, calls \<open>slice\<close> on the
  number and answers 500 from its outer \<open>catch\<close>, whatever the environment, the
  store and the model.
\<close>

theorem C10_request_validation_failing_input:
  "snd (POST_llm_first B env store llm (Some (JObj [(''answerSnippet'', JNum (Finite 5))])))
     = Err500 ''Internal server error'' \<and>
   snd (POST_direct_first B env store llm (Some (JObj [(''answerSnippet'', JNum (Finite 5))])))
     = Err400 ''filename and page are required''"
  by (simp add: POST_llm_first_def POST_direct_first_def answerSnippetOf_def fieldsOf_def)

text \<open>
  The same at a configured environment.
\<close>

theorem C10_request_validation_failing_input_witness:
  "snd (POST_llm_first (parsesTo [] JNull) sampleEnv (storeWithPage [sampleChunk]) failing
          (Some (JObj [(''answerSnippet'', JNum (Finite 5))])))
     = Err500 ''Internal server error'' \<and>
   snd (POST_direct_first (parsesTo [] JNull) sampleEnv (storeWithPage [sampleChunk]) failing
          (Some (JObj [(''answerSnippet'', JNum (Finite 5))])))
     = Err400 ''filename and page are required''"
  by (rule C10_request_validation_failing_input)

end
